theory Spec2Isabelle
  imports Complex_Main "HOL-Library.AList" "HOL-Library.Sublist"
begin

section \<open>Python values shared by the modules\<close>

text \<open>
  A Python \<open>str\<close> is modelled as the list of its characters (\<open>len\<close> is \<open>length\<close>).
  An exception is a value of \<open>py_error\<close>; a function that can raise returns
  \<open>py_error + 'a\<close>, and a \<open>try ... except Exception: return None\<close> around a body
  is \<open>catch_none\<close>.
\<close>

datatype py_error = KeyError string | IndexError | TypeError | AttributeError | IOError | LibraryError

definition catch_none :: "py_error + 'a \<Rightarrow> 'a option" where
  "catch_none r = (case r of Inl e \<Rightarrow> None | Inr v \<Rightarrow> Some v)"

text \<open>
  \<open>str.split(sep)\<close> with an explicit separator: the pieces between the separators,
  empty pieces kept, never an empty list.
\<close>

fun split_on :: "char \<Rightarrow> string \<Rightarrow> string list" where
  "split_on sep [] = [[]]"
| "split_on sep (c # cs) =
     (if c = sep then [] # split_on sep cs
      else (case split_on sep cs of
              [] \<Rightarrow> [[c]]
            | w # ws \<Rightarrow> (c # w) # ws))"

text \<open>
  \<open>str.split()\<close> without a separator: the maximal runs of non-whitespace characters.
  \<open>isspace\<close> is given for the characters below 256: tab, line feed, vertical tab,
  form feed, carriage return, the separators 28 to 31, space, 133 and 160.
\<close>

definition isspace :: "char \<Rightarrow> bool" where
  "isspace c = (of_char c \<in> set [9, 10, 11, 12, 13, 28, 29, 30, 31, 32, 133, 160 :: nat])"

fun split_ws :: "string \<Rightarrow> string \<Rightarrow> string list" where
  "split_ws word [] = (if word = [] then [] else [rev word])"
| "split_ws word (c # cs) =
     (if isspace c
      then (if word = [] then split_ws [] cs else rev word # split_ws [] cs)
      else split_ws (c # word) cs)"

definition split_whitespace :: "string \<Rightarrow> string list" where
  "split_whitespace s = split_ws [] s"

text \<open>
  A dictionary whose values are all strings is an association list in insertion order;
  \<open>k in d\<close> is \<open>has_key\<close>, \<open>d.get(k, default)\<close> is \<open>dict_get\<close>, and \<open>d[k]\<close>, which
  raises \<open>KeyError\<close> on a missing key, is \<open>dict_item\<close>.
\<close>

type_synonym str_dict = "(string \<times> string) list"

definition has_key :: "str_dict \<Rightarrow> string \<Rightarrow> bool" where
  "has_key d k = (map_of d k \<noteq> None)"

definition dict_get :: "str_dict \<Rightarrow> string \<Rightarrow> string \<Rightarrow> string" where
  "dict_get d k dflt = (case map_of d k of None \<Rightarrow> dflt | Some v \<Rightarrow> v)"

definition dict_item :: "str_dict \<Rightarrow> string \<Rightarrow> py_error + string" where
  "dict_item d k = (case map_of d k of None \<Rightarrow> Inl (KeyError k) | Some v \<Rightarrow> Inr v)"

section \<open>config.py: dotted-path settings\<close>

text \<open>
  The settings tree is what \<open>json.load\<close> yields (floating-point numbers left out): a
  dictionary is an association list in insertion order, which \<open>AList.update\<close> keeps as
  Python's item assignment does (an existing key keeps its place, a new key goes last).
\<close>

datatype pyval =
    PNone
  | PBool bool
  | PInt int
  | PStr string
  | PList "pyval list"
  | PDict "(string \<times> pyval) list"

text \<open>
  The loop of \<open>Config.get\<close>: \<open>value\<close> walks down the keys; a key that is missing, or a
  value that is not a dictionary, returns the default.
\<close>

fun get_keys :: "pyval \<Rightarrow> string list \<Rightarrow> pyval \<Rightarrow> pyval" where
  "get_keys v [] dflt = v"
| "get_keys v (key # keys) dflt =
     (case v of
        PDict d \<Rightarrow> (case map_of d key of
                      Some v' \<Rightarrow> get_keys v' keys dflt
                    | None \<Rightarrow> dflt)
      | _ \<Rightarrow> dflt)"

definition config_get :: "(string \<times> pyval) list \<Rightarrow> string \<Rightarrow> pyval \<Rightarrow> pyval" where
  "config_get settings key_path dflt = get_keys (PDict settings) (split_on CHR ''.'' key_path) dflt"

text \<open>
  The loop of \<open>Config.set\<close> over \<open>keys[:-1]\<close> and the final assignment to
  \<open>config[keys[-1]]\<close>, on the dictionary \<open>config\<close> currently walked. The nested
  dictionaries are mutated in place; the model rebuilds the path. A missing key gets an
  empty dictionary. When \<open>config[key]\<close> is bound to something that is not a dictionary,
  the next step (\<open>key not in config\<close>, \<open>config[key] = {}\<close>, \<open>config[key]\<close> or the final
  assignment) raises \<open>TypeError\<close> before anything was changed. \<open>keys\<close> is never empty
  (\<open>keys[-1]\<close> would raise \<open>IndexError\<close>).
  \<open>save_config\<close>, called last, writes the file only (and swallows its errors);
  \<open>get\<close> never reads the file, so the file is not part of the state.
\<close>

fun set_keys :: "(string \<times> pyval) list \<Rightarrow> string list \<Rightarrow> pyval \<Rightarrow> py_error + (string \<times> pyval) list" where
  "set_keys config [] v = Inl IndexError"
| "set_keys config [key] v = Inr (AList.update key v config)"
| "set_keys config (key # keys) v =
     (case map_of config key of
        None \<Rightarrow>
          (case set_keys [] keys v of
             Inl e \<Rightarrow> Inl e
           | Inr sub' \<Rightarrow> Inr (AList.update key (PDict sub') config))
      | Some (PDict sub) \<Rightarrow>
          (case set_keys sub keys v of
             Inl e \<Rightarrow> Inl e
           | Inr sub' \<Rightarrow> Inr (AList.update key (PDict sub') config))
      | Some _ \<Rightarrow> Inl TypeError)"

definition config_set :: "(string \<times> pyval) list \<Rightarrow> string \<Rightarrow> pyval \<Rightarrow> py_error + (string \<times> pyval) list" where
  "config_set settings key_path v = set_keys settings (split_on CHR ''.'' key_path) v"

text \<open>
  The paths the round trip is claimed for: every key before the last is absent from the
  dictionary reached so far, or bound to a dictionary.
\<close>

fun intermediate_keys_free :: "(string \<times> pyval) list \<Rightarrow> string list \<Rightarrow> bool" where
  "intermediate_keys_free config [] = True"
| "intermediate_keys_free config [key] = True"
| "intermediate_keys_free config (key # keys) =
     (case map_of config key of
        None \<Rightarrow> True
      | Some (PDict sub) \<Rightarrow> intermediate_keys_free sub keys
      | Some _ \<Rightarrow> False)"

section \<open>script\_generator.py: fetching and formatting a joke\<close>

definition joke_apis :: "string list" where
  "joke_apis =
     [''https://official-joke-api.appspot.com/random_joke'',
      ''https://v2.jokeapi.dev/joke/Any?blacklistFlags=nsfw,religious,political,racist,sexist,explicit&type=single'',
      ''https://icanhazdadjoke.com/'']"

definition backup_jokes :: "str_dict list" where
  "backup_jokes =
     [[(''setup'', ''Why don't scientists trust atoms?''),
       (''punchline'', ''Because they make up everything!''),
       (''type'', ''dad_joke'')],
      [(''setup'', ''What do you call a fake noodle?''),
       (''punchline'', ''An impasta!''),
       (''type'', ''dad_joke'')],
      [(''setup'', ''Why did the scarecrow win an award?''),
       (''punchline'', ''Because he was outstanding in his field!''),
       (''type'', ''dad_joke'')],
      [(''setup'', ''What do you call a bear with no teeth?''),
       (''punchline'', ''A gummy bear!''),
       (''type'', ''dad_joke'')],
      [(''setup'', ''Why don't eggs tell jokes?''),
       (''punchline'', ''They'd crack each other up!''),
       (''type'', ''dad_joke'')],
      [(''joke'', ''I told my wife she was drawing her eyebrows too high. She looked surprised.''),
       (''type'', ''one_liner'')],
      [(''joke'', ''I invented a new word: Plagiarism!''),
       (''type'', ''one_liner'')],
      [(''joke'', ''Why do programmers prefer dark mode? Because light attracts bugs!''),
       (''type'', ''one_liner'')]]"

text \<open>
  What one \<open>requests.get\<close> with \<open>raise_for_status\<close> and \<open>response.json()\<close> gives: an
  exception (timeout, connection error, HTTP error status, a body that is not JSON or not
  a JSON object, on which \<open>data.get\<close> raises), or the JSON object \<open>data\<close>. The fields
  the code reads are strings in all three services, so \<open>data\<close> is a \<open>str_dict\<close> here;
  answers of any JSON type follow in the next section.
\<close>

datatype http_result = Failed py_error | Body str_dict

text \<open>
  \<open>fetch_joke_from_api\<close>: the whole body is under \<open>try\<close>, every exception gives
  \<open>None\<close>; a URL that names none of the three services falls off the end of the
  function, which is \<open>None\<close> too. \<open>'x' in api_url\<close> is \<open>sublist\<close>.
\<close>

definition fetch_joke_from_api :: "string \<Rightarrow> http_result \<Rightarrow> str_dict option" where
  "fetch_joke_from_api api_url response =
     (case response of
        Failed e \<Rightarrow> None
      | Body data \<Rightarrow>
          if sublist ''official-joke-api'' api_url then
            Some [(''setup'', dict_get data ''setup'' []),
                  (''punchline'', dict_get data ''punchline'' []),
                  (''type'', ''dad_joke'')]
          else if sublist ''jokeapi.dev'' api_url then
            (if map_of data ''type'' = Some ''single'' then
               Some [(''joke'', dict_get data ''joke'' []),
                     (''type'', ''one_liner'')]
             else
               Some [(''setup'', dict_get data ''setup'' []),
                     (''punchline'', dict_get data ''delivery'' []),
                     (''type'', ''dad_joke'')])
          else if sublist ''icanhazdadjoke'' api_url then
            Some [(''joke'', dict_get data ''joke'' []),
                  (''type'', ''one_liner'')]
          else None)"


text \<open>
  The script dictionary. Its keys are fixed, so it is a record with one optional field
  for each key (\<open>None\<close>: the key is absent). Times are numbers; \<open>2.5\<close>, \<open>0.3\<close> and
  \<open>0.5\<close> are the rationals the literals denote.
\<close>

record visual_cue =
  cue_time :: int
  cue_action :: string

record text_overlay =
  overlay_text :: string
  overlay_start :: rat
  overlay_end :: rat

record background_audio =
  audio_type :: string
  audio_volume :: rat
  audio_fade_in :: rat
  audio_fade_out :: rat

record script_dict =
  sd_timestamp :: "string option"
  sd_source :: "string option"
  sd_type :: "string option"
  sd_script :: "string option"
  sd_setup :: "string option"
  sd_punchline :: "string option"
  sd_duration :: "int option"
  sd_topic :: "string option"
  sd_visual_cues :: "visual_cue list option"
  sd_text_overlays :: "text_overlay list option"
  sd_background_audio :: "background_audio option"
  sd_suggested_hashtags :: "string list option"

definition empty_script :: script_dict where
  "empty_script =
     \<lparr>sd_timestamp = None, sd_source = None, sd_type = None, sd_script = None,
      sd_setup = None, sd_punchline = None, sd_duration = None, sd_topic = None,
      sd_visual_cues = None, sd_text_overlays = None, sd_background_audio = None,
      sd_suggested_hashtags = None\<rparr>"

text \<open>
  \<open>format_script\<close>, with \<open>datetime.now().isoformat()\<close> as the parameter \<open>now\<close>.
  \<open>joke_data["type"]\<close> raises \<open>KeyError\<close> when the key is absent, and so does
  \<open>joke_data['punchline']\<close> in the first branch.
\<close>

definition format_script :: "string \<Rightarrow> str_dict \<Rightarrow> py_error + script_dict" where
  "format_script now joke_data =
     (let script_data = empty_script
            \<lparr>sd_timestamp := Some now,
             sd_source := Some (if has_key joke_data ''setup'' \<or> has_key joke_data ''joke''
                                then ''api'' else ''backup''),
             sd_type := Some (dict_get joke_data ''type'' ''unknown'')\<rparr>
      in case dict_item joke_data ''type'' of
           Inl e \<Rightarrow> Inl e
         | Inr ty \<Rightarrow>
             if ty = ''dad_joke'' \<and> has_key joke_data ''setup'' then
               (case dict_item joke_data ''setup'' of
                  Inl e \<Rightarrow> Inl e
                | Inr setup \<Rightarrow>
                    (case dict_item joke_data ''punchline'' of
                       Inl e \<Rightarrow> Inl e
                     | Inr punchline \<Rightarrow>
                         Inr (script_data
                                \<lparr>sd_script := Some (setup @ '' '' @ punchline),
                                 sd_setup := Some setup,
                                 sd_punchline := Some punchline,
                                 sd_duration := Some 6,
                                 sd_topic := Some ''dad joke''\<rparr>)))
             else if ty = ''one_liner'' \<and> has_key joke_data ''joke'' then
               (case dict_item joke_data ''joke'' of
                  Inl e \<Rightarrow> Inl e
                | Inr joke \<Rightarrow>
                    Inr (script_data
                           \<lparr>sd_script := Some joke,
                            sd_duration := Some 4,
                            sd_topic := Some ''one liner''\<rparr>))
             else
               (let script_text =
                      dict_get joke_data ''joke''
                        (dict_get joke_data ''setup'' [] @ '' '' @ dict_get joke_data ''punchline'' [])
                in Inr (script_data
                          \<lparr>sd_script := Some script_text,
                           sd_duration := Some (int (length (split_whitespace script_text)) div 2),
                           sd_topic := Some ''humor''\<rparr>)))"

text \<open>
  \<open>enhance_script_for_video\<close>. \<open>script_data["type"]\<close>, \<open>enhanced_script["duration"]\<close>
  and \<open>script_data["script"]\<close> raise \<open>KeyError\<close> on a missing key, in this order.
\<close>

definition get_field :: "string \<Rightarrow> 'a option \<Rightarrow> py_error + 'a" where
  "get_field k field = (case field of None \<Rightarrow> Inl (KeyError k) | Some v \<Rightarrow> Inr v)"

definition suggested_hashtags :: "string list" where
  "suggested_hashtags =
     [''#shorts'', ''#funny'', ''#comedy'', ''#joke'', ''#humor'',
      ''#viral'', ''#laughs'', ''#entertainment'']"

definition enhance_script_for_video :: "script_dict \<Rightarrow> py_error + script_dict" where
  "enhance_script_for_video script_data =
     (let extras = (\<lambda>cues overlays.
            script_data
              \<lparr>sd_visual_cues := Some cues,
               sd_text_overlays := Some overlays,
               sd_background_audio :=
                 Some \<lparr>audio_type = ''upbeat_comedy'', audio_volume = 3 / 10,
                       audio_fade_in = 1 / 2, audio_fade_out = 1 / 2\<rparr>,
               sd_suggested_hashtags := Some suggested_hashtags\<rparr>)
      in case get_field ''type'' (sd_type script_data) of
           Inl e \<Rightarrow> Inl e
         | Inr ty \<Rightarrow>
             if ty = ''dad_joke'' then
               Inr (extras
                 [\<lparr>cue_time = 0, cue_action = ''show_setup_text''\<rparr>,
                  \<lparr>cue_time = 2, cue_action = ''dramatic_pause''\<rparr>,
                  \<lparr>cue_time = 3, cue_action = ''show_punchline_text''\<rparr>,
                  \<lparr>cue_time = 5, cue_action = ''show_laughing_emoji''\<rparr>]
                 [\<lparr>overlay_text = (case sd_setup script_data of None \<Rightarrow> [] | Some t \<Rightarrow> t),
                   overlay_start = 0, overlay_end = 5 / 2\<rparr>,
                  \<lparr>overlay_text = (case sd_punchline script_data of None \<Rightarrow> [] | Some t \<Rightarrow> t),
                   overlay_start = 3, overlay_end = 6\<rparr>])
             else
               (case get_field ''duration'' (sd_duration script_data) of
                  Inl e \<Rightarrow> Inl e
                | Inr duration \<Rightarrow>
                    (case get_field ''script'' (sd_script script_data) of
                       Inl e \<Rightarrow> Inl e
                     | Inr script \<Rightarrow>
                         Inr (extras
                           [\<lparr>cue_time = 0, cue_action = ''show_joke_text''\<rparr>,
                            \<lparr>cue_time = duration, cue_action = ''show_laughing_emoji''\<rparr>]
                           [\<lparr>overlay_text = script, overlay_start = 0,
                             overlay_end = of_int duration\<rparr>]))))"

section \<open>script\_generator.py: generating a script from answers of any JSON type\<close>

text \<open>
  \<open>response.json()\<close> can yield any JSON value, and the fields of an answer need not be
  strings. The functions above are \<open>fetch_joke_from_api\<close>, \<open>format_script\<close> and
  \<open>enhance_script_for_video\<close> on answers whose fields are strings; here are the same
  functions, line by line, on JSON values of every type, and \<open>generate_funny_script\<close>
  on top of them. A number is given by its literal, an object by the dictionary
  \<open>json.load\<close> builds, as an association list.
\<close>

datatype json =
    JNull
  | JBool bool
  | JNumber string
  | JString string
  | JArray "json list"
  | JObject "(string \<times> json) list"

text \<open>
  What one \<open>requests.get\<close> with \<open>raise_for_status\<close> and \<open>response.json()\<close> gives: an
  exception (timeout, connection error, HTTP error status, a body that is not JSON), or
  the JSON value \<open>data\<close>.
\<close>

datatype http_response = Raised py_error | Answer json

definition json_dict :: "str_dict \<Rightarrow> (string \<times> json) list" where
  "json_dict d = map (\<lambda>(k, v). (k, JString v)) d"

definition json_get :: "(string \<times> json) list \<Rightarrow> string \<Rightarrow> json \<Rightarrow> json" where
  "json_get d k dflt = (case map_of d k of None \<Rightarrow> dflt | Some v \<Rightarrow> v)"

definition json_item :: "(string \<times> json) list \<Rightarrow> string \<Rightarrow> py_error + json" where
  "json_item d k = (case map_of d k of None \<Rightarrow> Inl (KeyError k) | Some v \<Rightarrow> Inr v)"

text \<open>
  A value inside an f-string: a string stands as it is, any other value as Python's
  \<open>str()\<close> prints it. \<open>str()\<close> on the values that are not strings is a parameter,
  \<open>str_of\<close>.
\<close>

definition fstr :: "(json \<Rightarrow> string) \<Rightarrow> json \<Rightarrow> string" where
  "fstr str_of v = (case v of JString s \<Rightarrow> s | _ \<Rightarrow> str_of v)"

text \<open>
  \<open>fetch_joke_from_api\<close>. On a value that is not an object \<open>data.get\<close> raises
  \<open>AttributeError\<close>, which the \<open>except\<close> turns into \<open>None\<close>; a URL that names none
  of the three services returns \<open>None\<close> without touching \<open>data\<close>.
  \<open>data.get('type') == 'single'\<close> holds for the string \<open>single\<close> only.
\<close>

definition fetch_joke_from_api_json ::
  "string \<Rightarrow> http_response \<Rightarrow> (string \<times> json) list option" where
  "fetch_joke_from_api_json api_url response =
     (case response of
        Raised e \<Rightarrow> None
      | Answer answer \<Rightarrow>
          (case answer of
             JObject data \<Rightarrow>
               if sublist ''official-joke-api'' api_url then
                 Some [(''setup'', json_get data ''setup'' (JString [])),
                       (''punchline'', json_get data ''punchline'' (JString [])),
                       (''type'', JString ''dad_joke'')]
               else if sublist ''jokeapi.dev'' api_url then
                 (if map_of data ''type'' = Some (JString ''single'') then
                    Some [(''joke'', json_get data ''joke'' (JString [])),
                          (''type'', JString ''one_liner'')]
                  else
                    Some [(''setup'', json_get data ''setup'' (JString [])),
                          (''punchline'', json_get data ''delivery'' (JString [])),
                          (''type'', JString ''dad_joke'')])
               else if sublist ''icanhazdadjoke'' api_url then
                 Some [(''joke'', json_get data ''joke'' (JString [])),
                       (''type'', JString ''one_liner'')]
               else None
           | _ \<Rightarrow> None))"


text \<open>
  The script dictionary when its texts can be any JSON value: the record \<open>script_dict\<close>
  with JSON values for the type, the script, the setup, the punchline and the text of an
  overlay.
\<close>

record json_overlay =
  jo_text :: json
  jo_start :: rat
  jo_end :: rat

record json_script =
  js_timestamp :: "string option"
  js_source :: "string option"
  js_type :: "json option"
  js_script :: "json option"
  js_setup :: "json option"
  js_punchline :: "json option"
  js_duration :: "int option"
  js_topic :: "string option"
  js_visual_cues :: "visual_cue list option"
  js_text_overlays :: "json_overlay list option"
  js_background_audio :: "background_audio option"
  js_suggested_hashtags :: "string list option"

definition empty_json_script :: json_script where
  "empty_json_script =
     \<lparr>js_timestamp = None, js_source = None, js_type = None, js_script = None,
      js_setup = None, js_punchline = None, js_duration = None, js_topic = None,
      js_visual_cues = None, js_text_overlays = None, js_background_audio = None,
      js_suggested_hashtags = None\<rparr>"

text \<open>
  \<open>format_script\<close>. \<open>joke_data["type"] == "dad_joke"\<close> holds for the string
  \<open>dad_joke\<close> only. In the last branch \<open>script_text.split()\<close> raises
  \<open>AttributeError\<close> when \<open>script_text\<close> is not a string.
\<close>

definition format_script_json ::
  "(json \<Rightarrow> string) \<Rightarrow> string \<Rightarrow> (string \<times> json) list \<Rightarrow> py_error + json_script" where
  "format_script_json str_of now joke_data =
     (let script_data = empty_json_script
            \<lparr>js_timestamp := Some now,
             js_source := Some (if map_of joke_data ''setup'' \<noteq> None \<or>
                                   map_of joke_data ''joke'' \<noteq> None
                                then ''api'' else ''backup''),
             js_type := Some (json_get joke_data ''type'' (JString ''unknown''))\<rparr>
      in case json_item joke_data ''type'' of
           Inl e \<Rightarrow> Inl e
         | Inr ty \<Rightarrow>
             if ty = JString ''dad_joke'' \<and> map_of joke_data ''setup'' \<noteq> None then
               (case json_item joke_data ''setup'' of
                  Inl e \<Rightarrow> Inl e
                | Inr setup \<Rightarrow>
                    (case json_item joke_data ''punchline'' of
                       Inl e \<Rightarrow> Inl e
                     | Inr punchline \<Rightarrow>
                         Inr (script_data
                                \<lparr>js_script :=
                                   Some (JString (fstr str_of setup @ '' '' @
                                                  fstr str_of punchline)),
                                 js_setup := Some setup,
                                 js_punchline := Some punchline,
                                 js_duration := Some 6,
                                 js_topic := Some ''dad joke''\<rparr>)))
             else if ty = JString ''one_liner'' \<and> map_of joke_data ''joke'' \<noteq> None then
               (case json_item joke_data ''joke'' of
                  Inl e \<Rightarrow> Inl e
                | Inr joke \<Rightarrow>
                    Inr (script_data
                           \<lparr>js_script := Some joke,
                            js_duration := Some 4,
                            js_topic := Some ''one liner''\<rparr>))
             else
               (let script_text =
                      json_get joke_data ''joke''
                        (JString (fstr str_of (json_get joke_data ''setup'' (JString [])) @ '' '' @
                                  fstr str_of (json_get joke_data ''punchline'' (JString []))))
                in case script_text of
                     JString s \<Rightarrow>
                       Inr (script_data
                              \<lparr>js_script := Some script_text,
                               js_duration := Some (int (length (split_whitespace s)) div 2),
                               js_topic := Some ''humor''\<rparr>)
                   | _ \<Rightarrow> Inl AttributeError))"

text \<open>\<open>enhance_script_for_video\<close>.\<close>

definition enhance_script_for_video_json :: "json_script \<Rightarrow> py_error + json_script" where
  "enhance_script_for_video_json script_data =
     (let extras = (\<lambda>cues overlays.
            script_data
              \<lparr>js_visual_cues := Some cues,
               js_text_overlays := Some overlays,
               js_background_audio :=
                 Some \<lparr>audio_type = ''upbeat_comedy'', audio_volume = 3 / 10,
                       audio_fade_in = 1 / 2, audio_fade_out = 1 / 2\<rparr>,
               js_suggested_hashtags := Some suggested_hashtags\<rparr>)
      in case get_field ''type'' (js_type script_data) of
           Inl e \<Rightarrow> Inl e
         | Inr ty \<Rightarrow>
             if ty = JString ''dad_joke'' then
               Inr (extras
                 [\<lparr>cue_time = 0, cue_action = ''show_setup_text''\<rparr>,
                  \<lparr>cue_time = 2, cue_action = ''dramatic_pause''\<rparr>,
                  \<lparr>cue_time = 3, cue_action = ''show_punchline_text''\<rparr>,
                  \<lparr>cue_time = 5, cue_action = ''show_laughing_emoji''\<rparr>]
                 [\<lparr>jo_text = (case js_setup script_data of None \<Rightarrow> JString [] | Some t \<Rightarrow> t),
                   jo_start = 0, jo_end = 5 / 2\<rparr>,
                  \<lparr>jo_text = (case js_punchline script_data of None \<Rightarrow> JString [] | Some t \<Rightarrow> t),
                   jo_start = 3, jo_end = 6\<rparr>])
             else
               (case get_field ''duration'' (js_duration script_data) of
                  Inl e \<Rightarrow> Inl e
                | Inr duration \<Rightarrow>
                    (case get_field ''script'' (js_script script_data) of
                       Inl e \<Rightarrow> Inl e
                     | Inr script \<Rightarrow>
                         Inr (extras
                           [\<lparr>cue_time = 0, cue_action = ''show_joke_text''\<rparr>,
                            \<lparr>cue_time = duration, cue_action = ''show_laughing_emoji''\<rparr>]
                           [\<lparr>jo_text = script, jo_start = 0,
                             jo_end = of_int duration\<rparr>]))))"

text \<open>
  The script dictionary of strings, as a script dictionary of JSON values.
\<close>

definition json_of_script :: "script_dict \<Rightarrow> json_script" where
  "json_of_script sd =
     \<lparr>js_timestamp = sd_timestamp sd, js_source = sd_source sd,
      js_type = map_option JString (sd_type sd),
      js_script = map_option JString (sd_script sd),
      js_setup = map_option JString (sd_setup sd),
      js_punchline = map_option JString (sd_punchline sd),
      js_duration = sd_duration sd, js_topic = sd_topic sd,
      js_visual_cues = sd_visual_cues sd,
      js_text_overlays =
        map_option (map (\<lambda>ov. \<lparr>jo_text = JString (overlay_text ov),
                                jo_start = overlay_start ov, jo_end = overlay_end ov\<rparr>))
          (sd_text_overlays sd),
      js_background_audio = sd_background_audio sd,
      js_suggested_hashtags = sd_suggested_hashtags sd\<rparr>"





section \<open>video\_creator.py: the full renderer\<close>

text \<open>
  \<open>VideoCreator.text_settings["fontsize"]\<close>, and lines 112-119 of
  \<open>create_text_clip\<close>: the default font size when none is passed, then the
  adjustment for long text, with the \<open>if\<close>/\<open>elif\<close> in the order of the source.
\<close>

definition text_settings_fontsize :: int where
  "text_settings_fontsize = 80"

definition text_clip_fontsize :: "string \<Rightarrow> int option \<Rightarrow> int" where
  "text_clip_fontsize text fontsize_arg =
     (let fontsize = (case fontsize_arg of None \<Rightarrow> text_settings_fontsize | Some f \<Rightarrow> f)
      in if length text > 50 then max 40 (fontsize - 10)
         else if length text > 100 then max 30 (fontsize - 20)
         else fontsize)"

text \<open>
  The media library is the environment of the renderer: which of its calls raise, what
  the random choices draw, and the clock. A clip is recorded by what the code passes to
  the library; the start and end times of the text clips are floating-point products
  (\<open>duration * 0.6\<close>) and are left out.
\<close>

record render_env =
  coin :: bool
  color_pick :: nat
  animated_ok :: bool
  color_clip_ok :: bool
  styled_text_ok :: bool
  plain_text_ok :: bool
  emoji_ok :: bool
  compose_ok :: bool
  write_video_ok :: bool
  render_now :: string

definition background_colors :: "(nat \<times> nat \<times> nat) list" where
  "background_colors =
     [(25, 25, 112), (72, 61, 139), (106, 90, 205), (30, 144, 255),
      (0, 100, 0), (85, 107, 47), (139, 69, 19), (160, 82, 45)]"

datatype background = Animated int | Solid "nat \<times> nat \<times> nat" int

datatype emoji = FaceWithTearsOfJoy | RollingOnTheFloorLaughing

record text_clip =
  tc_text :: string
  tc_fontsize :: int
  tc_styled :: bool

record video_clip =
  vc_duration :: int
  vc_background :: background
  vc_texts :: "text_clip list"
  vc_emoji :: "emoji option"

definition create_background_video :: "render_env \<Rightarrow> int \<Rightarrow> py_error + background" where
  "create_background_video env duration =
     (if color_clip_ok env then Inr (Solid (background_colors ! color_pick env) duration)
      else Inl LibraryError)"

definition create_animated_background :: "render_env \<Rightarrow> int \<Rightarrow> py_error + background" where
  "create_animated_background env duration =
     (if animated_ok env then Inr (Animated duration)
      else create_background_video env duration)"

text \<open>
  \<open>create_text_clip\<close>: the styled \<open>TextClip\<close> with its cross-fades, and on any
  exception the plain white \<open>TextClip\<close> of the same font size, which may raise again.
\<close>

definition create_text_clip :: "render_env \<Rightarrow> string \<Rightarrow> int option \<Rightarrow> py_error + text_clip" where
  "create_text_clip env text fontsize_arg =
     (let fontsize = text_clip_fontsize text fontsize_arg
      in if styled_text_ok env then
           Inr \<lparr>tc_text = text, tc_fontsize = fontsize, tc_styled = True\<rparr>
         else if plain_text_ok env then
           Inr \<lparr>tc_text = text, tc_fontsize = fontsize, tc_styled = False\<rparr>
         else Inl LibraryError)"

definition create_emoji_clip :: "render_env \<Rightarrow> emoji \<Rightarrow> emoji option" where
  "create_emoji_clip env e = (if emoji_ok env then Some e else None)"

text \<open>
  The body of \<open>create_video_from_script\<close> (the part under \<open>try\<close>), then the function
  with its \<open>except Exception: return None\<close>. \<open>add_background_music\<close> returns the video
  as it is.
\<close>

definition create_video_from_script_body :: "render_env \<Rightarrow> script_dict \<Rightarrow> py_error + video_clip" where
  "create_video_from_script_body env script_data =
     (let duration = min (case sd_duration script_data of None \<Rightarrow> 10 | Some d \<Rightarrow> d) 60
      in case (if coin env then create_animated_background env duration
               else create_background_video env duration) of
           Inl e \<Rightarrow> Inl e
         | Inr background \<Rightarrow>
             (case get_field ''type'' (sd_type script_data) of
                Inl e \<Rightarrow> Inl e
              | Inr ty \<Rightarrow>
                  (case (if ty = ''dad_joke'' \<and> sd_setup script_data \<noteq> None then
                           (case get_field ''setup'' (sd_setup script_data) of
                              Inl e \<Rightarrow> Inl e
                            | Inr setup \<Rightarrow>
                                (case create_text_clip env setup None of
                                   Inl e \<Rightarrow> Inl e
                                 | Inr setup_clip \<Rightarrow>
                                     (case get_field ''punchline'' (sd_punchline script_data) of
                                        Inl e \<Rightarrow> Inl e
                                      | Inr punchline \<Rightarrow>
                                          (case create_text_clip env punchline
                                                  (Some (text_settings_fontsize + 10)) of
                                             Inl e \<Rightarrow> Inl e
                                           | Inr punchline_clip \<Rightarrow>
                                               Inr ([setup_clip, punchline_clip],
                                                    create_emoji_clip env FaceWithTearsOfJoy)))))
                         else
                           (case get_field ''script'' (sd_script script_data) of
                              Inl e \<Rightarrow> Inl e
                            | Inr script \<Rightarrow>
                                (case create_text_clip env script None of
                                   Inl e \<Rightarrow> Inl e
                                 | Inr text_clip \<Rightarrow>
                                     Inr ([text_clip],
                                          create_emoji_clip env RollingOnTheFloorLaughing)))) of
                     Inl e \<Rightarrow> Inl e
                   | Inr (texts, emoji_clip) \<Rightarrow>
                       if compose_ok env then
                         Inr \<lparr>vc_duration = duration, vc_background = background,
                              vc_texts = texts, vc_emoji = emoji_clip\<rparr>
                       else Inl LibraryError)))"

definition create_video_from_script :: "render_env \<Rightarrow> script_dict \<Rightarrow> video_clip option" where
  "create_video_from_script env script_data =
     catch_none (create_video_from_script_body env script_data)"

text \<open>
  \<open>VideoCreator.create_video\<close>: the path returned, together with the clip that
  \<open>write_videofile\<close> encoded under it.
\<close>

definition create_video :: "render_env \<Rightarrow> script_dict \<Rightarrow> (string \<times> video_clip) option" where
  "create_video env script_data =
     (case create_video_from_script env script_data of
        None \<Rightarrow> None
      | Some video_clip \<Rightarrow>
          if write_video_ok env
          then Some (''videos/short_'' @ render_now env @ ''.mp4'', video_clip)
          else None)"

section \<open>video\_creator\_lite.py: the image and text renderer\<close>

text \<open>
  The environment: \<open>PIL_AVAILABLE\<close>, whether each of the two font loaders works,
  whether the other image operations (creating, measuring, drawing, saving) work,
  whether the text file can be written, and the clock.
\<close>

record lite_env =
  pil_available :: bool
  truetype_ok :: bool
  default_font_ok :: bool
  image_ok :: bool
  text_write_ok :: bool
  lite_now :: string

datatype line = Text string | Emoji emoji

text \<open>
  The text file of \<open>create_text_file\<close>, by the values its template prints:
  \<open>Duration:\<close> prints \<open>script_data.get('duration', 'Unknown')\<close>, here \<open>None\<close> for
  \<open>Unknown\<close>.
\<close>

record text_content =
  tf_created :: string
  tf_type :: string
  tf_content :: string
  tf_duration :: "int option"
  tf_topic :: string
  tf_visual_cues :: "visual_cue list"
  tf_text_overlays :: "text_overlay list"

datatype lite_asset = ImageFile "line list" | TextFile text_content

definition create_text_file :: "lite_env \<Rightarrow> script_dict \<Rightarrow> (string \<times> lite_asset) option" where
  "create_text_file env script_data =
     (let content =
            \<lparr>tf_created = lite_now env,
             tf_type = (case sd_type script_data of None \<Rightarrow> ''unknown'' | Some t \<Rightarrow> t),
             tf_content = (case sd_script script_data of
                             None \<Rightarrow> ''No content available'' | Some t \<Rightarrow> t),
             tf_duration = sd_duration script_data,
             tf_topic = (case sd_topic script_data of None \<Rightarrow> ''humor'' | Some t \<Rightarrow> t),
             tf_visual_cues = (case sd_visual_cues script_data of None \<Rightarrow> [] | Some c \<Rightarrow> c),
             tf_text_overlays = (case sd_text_overlays script_data of None \<Rightarrow> [] | Some c \<Rightarrow> c)\<rparr>
      in if text_write_ok env
         then Some (''videos/short_'' @ lite_now env @ ''.txt'', TextFile content)
         else None)"

text \<open>
  The lines \<open>create_text_image\<close> draws; an empty line is skipped by the loop.
\<close>

definition text_lines :: "script_dict \<Rightarrow> py_error + line list" where
  "text_lines script_data =
     (case get_field ''type'' (sd_type script_data) of
        Inl e \<Rightarrow> Inl e
      | Inr ty \<Rightarrow>
          if ty = ''dad_joke'' \<and> sd_setup script_data \<noteq> None then
            (case get_field ''setup'' (sd_setup script_data) of
               Inl e \<Rightarrow> Inl e
             | Inr setup \<Rightarrow>
                 (case get_field ''punchline'' (sd_punchline script_data) of
                    Inl e \<Rightarrow> Inl e
                  | Inr punchline \<Rightarrow>
                      Inr [Text setup, Text [], Text punchline, Text [],
                           Emoji FaceWithTearsOfJoy]))
          else
            (case get_field ''script'' (sd_script script_data) of
               Inl e \<Rightarrow> Inl e
             | Inr script \<Rightarrow> Inr [Text script, Text [], Emoji RollingOnTheFloorLaughing]))"

definition create_text_image :: "lite_env \<Rightarrow> script_dict \<Rightarrow> (string \<times> lite_asset) option" where
  "create_text_image env script_data =
     (if \<not> pil_available env then create_text_file env script_data
      else if \<not> image_ok env then create_text_file env script_data
      else if \<not> truetype_ok env \<and> \<not> default_font_ok env then create_text_file env script_data
      else (case text_lines script_data of
              Inl e \<Rightarrow> create_text_file env script_data
            | Inr lines \<Rightarrow>
                Some (''videos/short_'' @ lite_now env @ ''.jpg'',
                      ImageFile (filter (\<lambda>l. l \<noteq> Text []) lines))))"

definition create_video_lite :: "lite_env \<Rightarrow> script_dict \<Rightarrow> (string \<times> lite_asset) option" where
  "create_video_lite env script_data =
     (case create_text_image env script_data of
        None \<Rightarrow> None
      | Some (content_path, asset) \<Rightarrow>
          if content_path = [] then None else Some (content_path, asset))"

section \<open>youtube\_uploader.py: the resumable upload and the upload log\<close>

text \<open>
  What one call of \<open>insert_request.next_chunk()\<close> gives: \<open>(status, None)\<close> while the
  upload is in progress, a response (with the value under \<open>'id'\<close>, if it has one), an
  \<open>HttpError\<close> with its status, or another exception. The transport is the sequence
  of these outcomes, by the number of the call.
\<close>

datatype chunk_result =
    Progress
  | Response "string option"
  | HttpError nat
  | OtherException

text \<open>
  The variables of the loop of \<open>_resumable_upload\<close>: \<open>error\<close> (whether it is not
  \<open>None\<close>) and \<open>retry\<close>, with the number of calls of \<open>next_chunk\<close> made and the
  arguments of \<open>time.sleep\<close> so far. \<open>error\<close> is never reset.
\<close>

record upload_loop =
  calls :: nat
  error :: bool
  retry :: nat
  sleeps :: "nat list"

text \<open>
  One iteration of \<open>while response is None\<close> per unfolding. The loop has no bound
  of its own (a transport that reports progress forever keeps it running), so the
  function is partial: \<open>None\<close> is a run that never returns, \<open>Some (r, s)\<close> a run that
  returns \<open>r\<close> (Python's \<open>None\<close> is \<open>r = None\<close>) in the final state \<open>s\<close>.
\<close>

partial_function (option) resumable_loop ::
  "(nat \<Rightarrow> chunk_result) \<Rightarrow> upload_loop \<Rightarrow> (string option \<times> upload_loop) option" where
  "resumable_loop transport s =
     (let s1 = s\<lparr>calls := calls s + 1\<rparr> in
      case transport (calls s) of
        Response r \<Rightarrow> Some (r, s1)
      | OtherException \<Rightarrow> Some (None, s1\<lparr>error := True\<rparr>)
      | HttpError status \<Rightarrow>
          if status \<in> set [500, 502, 503, 504] then
            (if retry s + 1 > 3 then Some (None, s1\<lparr>error := True, retry := retry s + 1\<rparr>)
             else resumable_loop transport
                    (s1\<lparr>error := True, retry := retry s + 1,
                        sleeps := sleeps s @ [2 ^ (retry s + 1)]\<rparr>))
          else Some (None, s1)
      | Progress \<Rightarrow>
          if error s then
            (if retry s + 1 > 3 then Some (None, s1\<lparr>retry := retry s + 1\<rparr>)
             else resumable_loop transport
                    (s1\<lparr>retry := retry s + 1, sleeps := sleeps s @ [2 ^ (retry s + 1)]\<rparr>))
          else resumable_loop transport s1)"

definition resumable_upload ::
  "(nat \<Rightarrow> chunk_result) \<Rightarrow> (string option \<times> upload_loop) option" where
  "resumable_upload transport =
     resumable_loop transport \<lparr>calls = 0, error = False, retry = 0, sleeps = []\<rparr>"

text \<open>
  The upload log \<open>uploads_log.json\<close>: absent, a JSON list of the records written so
  far, or a file on which \<open>json.load\<close> raises or yields something that is not a list.
  Writing it back can succeed, fail at \<open>open\<close> (the file stays as it was), or fail
  during \<open>json.dump\<close> (the file was truncated by \<open>open\<close> and holds a fragment).
\<close>

record upload_record =
  ur_video_id :: string
  ur_video_path :: string
  ur_title :: string
  ur_description :: string
  ur_tags :: "string list"
  ur_upload_time :: string
  ur_url :: string

datatype log_file = Absent | Records "upload_record list" | Unreadable

datatype write_result = WriteOk | OpenFails | DumpFails

record upload_env =
  youtube :: bool
  path_exists :: "string \<Rightarrow> bool"
  request_ok :: bool
  transport :: "nat \<Rightarrow> chunk_result"
  log_write :: write_result
  upload_now :: string

text \<open>
  \<open>_save_upload_metadata\<close>: every exception is caught and logged, so the function
  returns the log file as it is left.
\<close>

definition save_upload_metadata ::
  "upload_env \<Rightarrow> log_file \<Rightarrow> string \<Rightarrow> string \<Rightarrow> string \<Rightarrow> string \<Rightarrow> string list \<Rightarrow> log_file" where
  "save_upload_metadata env uploads_log video_id video_path title description tags =
     (let metadata =
            \<lparr>ur_video_id = video_id, ur_video_path = video_path, ur_title = title,
             ur_description = description, ur_tags = tags, ur_upload_time = upload_now env,
             ur_url = ''https://www.youtube.com/watch?v='' @ video_id\<rparr>
      in case (case uploads_log of
                 Absent \<Rightarrow> Some []
               | Records uploads \<Rightarrow> Some uploads
               | Unreadable \<Rightarrow> None) of
           None \<Rightarrow> uploads_log
         | Some uploads \<Rightarrow>
             (case log_write env of
                WriteOk \<Rightarrow> Records (uploads @ [metadata])
              | OpenFails \<Rightarrow> uploads_log
              | DumpFails \<Rightarrow> Unreadable))"

text \<open>
  \<open>upload_video\<close>: \<open>youtube\<close> says whether \<open>self.youtube\<close> is set, \<open>request_ok\<close>
  whether \<open>MediaFileUpload\<close> and \<open>videos().insert\<close> build the request without an
  exception. The outcome is the value returned, the log file afterwards, and the final
  state of the upload loop when it ran; the outer \<open>None\<close> is a run that never returns.
\<close>

record upload_outcome =
  returned :: "string option"
  log_after :: log_file
  loop_state :: "upload_loop option"

definition upload_video ::
  "upload_env \<Rightarrow> log_file \<Rightarrow> string \<Rightarrow> string \<Rightarrow> string \<Rightarrow> string list \<Rightarrow> upload_outcome option" where
  "upload_video env uploads_log video_path title description tags =
     (if \<not> youtube env then
        Some \<lparr>returned = None, log_after = uploads_log, loop_state = None\<rparr>
      else if \<not> path_exists env video_path then
        Some \<lparr>returned = None, log_after = uploads_log, loop_state = None\<rparr>
      else if \<not> request_ok env then
        Some \<lparr>returned = None, log_after = uploads_log, loop_state = None\<rparr>
      else
        (case resumable_upload (transport env) of
           None \<Rightarrow> None
         | Some (video_id, s) \<Rightarrow>
             (case video_id of
                None \<Rightarrow> Some \<lparr>returned = None, log_after = uploads_log, loop_state = Some s\<rparr>
              | Some vid \<Rightarrow>
                  if vid = [] then
                    Some \<lparr>returned = None, log_after = uploads_log, loop_state = Some s\<rparr>
                  else
                    Some \<lparr>returned = Some vid,
                          log_after = save_upload_metadata env uploads_log vid video_path title
                                        description tags,
                          loop_state = Some s\<rparr>)))"

section \<open>main.py: one run of the pipeline\<close>

text \<open>
  The three stages are objects the orchestrator calls; each catches its own exceptions
  and returns \<open>None\<close> on failure. They are the environment of a run: what
  \<open>generate_funny_script()\<close> returns, what \<open>create_video\<close> returns for a script, what
  the uploader's \<open>upload_video\<close> returns for a content, with the title
  \<open>random.choice\<close> draws, the description template (a fixed text around the script),
  whether the metadata file can be written, and the clock. A run is traced by the stages
  it calls, in order.
\<close>

datatype stage = GeneratingScript | Rendering | Uploading

record content_data =
  cd_video_path :: string
  cd_title :: string
  cd_description :: string
  cd_tags :: "string list"
  cd_script :: script_dict
  cd_created_at :: string

record pipeline_env =
  script_stage :: "script_dict option"
  render_stage :: "script_dict \<Rightarrow> string option"
  upload_stage :: "content_data \<Rightarrow> string option"
  title_choice :: string
  description_template :: "string \<Rightarrow> string"
  metadata_write_ok :: bool
  pipeline_now :: string

definition base_tags :: "string list" where
  "base_tags =
     [''funny'', ''comedy'', ''humor'', ''shorts'', ''viral'', ''laugh'',
      ''hilarious'', ''entertainment'', ''fun'', ''joke'', ''meme'',
      ''youtubeshorts'', ''short'', ''trending'', ''fyp'', ''foryou'']"

text \<open>\<open>str.lower\<close> on the letters A to Z; the other characters are kept.\<close>

definition lower :: "string \<Rightarrow> string" where
  "lower s = map (\<lambda>c. if 65 \<le> (of_char c :: nat) \<and> (of_char c :: nat) \<le> 90
                       then char_of (of_char c + 32 :: nat) else c) s"

definition generate_tags :: "script_dict \<Rightarrow> string list" where
  "generate_tags script_data =
     take 15 (case sd_topic script_data of
                None \<Rightarrow> base_tags
              | Some topic \<Rightarrow> base_tags @ split_whitespace (lower topic))"

definition generate_description :: "pipeline_env \<Rightarrow> script_dict \<Rightarrow> string" where
  "generate_description env script_data =
     description_template env
       (case sd_script script_data of None \<Rightarrow> ''Funny content ahead!'' | Some t \<Rightarrow> t)"

text \<open>
  \<open>generate_content\<close>: \<open>not script_data\<close> holds for \<open>None\<close> and for the empty
  dictionary, \<open>not video_path\<close> for \<open>None\<close> and for the empty string. An exception
  while the metadata file is written is caught and gives \<open>None\<close>.
\<close>

definition generate_content :: "pipeline_env \<Rightarrow> content_data option \<times> stage list" where
  "generate_content env =
     (case script_stage env of
        None \<Rightarrow> (None, [GeneratingScript])
      | Some script_data \<Rightarrow>
          if script_data = empty_script then (None, [GeneratingScript])
          else
            (case render_stage env script_data of
               None \<Rightarrow> (None, [GeneratingScript, Rendering])
             | Some video_path \<Rightarrow>
                 if video_path = [] then (None, [GeneratingScript, Rendering])
                 else if \<not> metadata_write_ok env then (None, [GeneratingScript, Rendering])
                 else
                   (Some \<lparr>cd_video_path = video_path,
                          cd_title = title_choice env,
                          cd_description = generate_description env script_data,
                          cd_tags = generate_tags script_data,
                          cd_script = script_data,
                          cd_created_at = pipeline_now env\<rparr>,
                    [GeneratingScript, Rendering])))"

text \<open>
  \<open>YouTubeShortsAutomation.upload_video\<close>: the uploader's result when it is truthy
  (a non-empty id), else \<open>None\<close>.
\<close>

definition upload_content :: "pipeline_env \<Rightarrow> content_data \<Rightarrow> string option" where
  "upload_content env content =
     (case upload_stage env content of
        None \<Rightarrow> None
      | Some upload_result \<Rightarrow> if upload_result = [] then None else Some upload_result)"

text \<open>
  \<open>daily_automation\<close>: the value returned and the stages called. When it returns, the
  run is over and the orchestrator is idle again.
\<close>

definition daily_automation :: "pipeline_env \<Rightarrow> bool \<times> stage list" where
  "daily_automation env =
     (case generate_content env of
        (None, trace) \<Rightarrow> (False, trace)
      | (Some content, trace) \<Rightarrow>
          (case upload_content env content of
             None \<Rightarrow> (False, trace @ [Uploading])
           | Some upload_result \<Rightarrow> (True, trace @ [Uploading])))"

section \<open>Font size of a text clip\<close>

text \<open>
  C8, evaluated on the code: a text of 101 characters drawn at the default size gets
  font size 70 (the default 80 reduced by 10), not 60 (reduced by 20): the branch for
  more than 100 characters stands behind the branch for more than 50 and is never taken.
\<close>

theorem C8_fontsize_101_chars:
  "text_clip_fontsize (replicate 101 (CHR ''a'')) None = 70"
  by (simp add: text_clip_fontsize_def text_settings_fontsize_def)

section \<open>Dotted-path settings: set then get\<close>

lemma split_on_not_empty: "split_on sep s \<noteq> []"
  by (induction s) (auto split: list.splits)

lemma set_keys_then_get_keys:
  "keys \<noteq> [] \<Longrightarrow> intermediate_keys_free config keys \<Longrightarrow>
   \<exists>config'. set_keys config keys v = Inr config' \<and> get_keys (PDict config') keys dflt = v"
proof (induction config keys v rule: set_keys.induct)
  case (1 config v)
  then show ?case by simp
next
  case (2 config key v)
  show ?case by (simp add: update_conv')
next
  case (3 config key k2 keys v)
  show ?case
  proof (cases "map_of config key")
    case None
    have "intermediate_keys_free [] (k2 # keys)"
      by (cases keys) simp_all
    with "3.IH"(1)[OF None] obtain sub' where
      s: "set_keys [] (k2 # keys) v = Inr sub'" and
      g: "get_keys (PDict sub') (k2 # keys) dflt = v"
      by blast
    show ?thesis using None s g by (simp add: update_conv')
  next
    case (Some a)
    show ?thesis
    proof (cases a)
      case (PDict sub)
      with "3.prems" Some have "intermediate_keys_free sub (k2 # keys)" by simp
      with "3.IH"(2)[OF Some PDict] obtain sub' where
        s: "set_keys sub (k2 # keys) v = Inr sub'" and
        g: "get_keys (PDict sub') (k2 # keys) dflt = v"
        by blast
      show ?thesis using Some PDict s g by (simp add: update_conv')
    qed (use "3.prems" Some in simp_all)
  qed
qed

lemma set_keys_type_error:
  "keys \<noteq> [] \<Longrightarrow> \<not> intermediate_keys_free config keys \<Longrightarrow>
   set_keys config keys v = Inl TypeError"
  by (induction config keys v rule: set_keys.induct)
     (auto split: option.splits pyval.splits sum.splits)

text \<open>
  C10. For every settings dictionary, every dotted path whose keys before the last are
  each absent or bound to a dictionary, and every value \<open>v\<close>: \<open>set(path, v)\<close> returns
  without an exception, and \<open>get(path)\<close> on the settings it leaves returns \<open>v\<close>,
  whatever default is passed.
\<close>

theorem config_set_then_get:
  assumes "intermediate_keys_free settings (split_on CHR ''.'' key_path)"
  shows "\<exists>settings'. config_set settings key_path v = Inr settings' \<and>
                     config_get settings' key_path dflt = v"
  using set_keys_then_get_keys [OF split_on_not_empty assms]
  by (simp add: config_set_def config_get_def)

theorem config_set_then_get_witness:
  "intermediate_keys_free [(''video_creation'', PDict [(''fps'', PInt 30)])]
     (split_on CHR ''.'' ''video_creation.resolution.width'') \<and>
   (\<exists>settings'.
      config_set [(''video_creation'', PDict [(''fps'', PInt 30)])]
        ''video_creation.resolution.width'' (PInt 1080) = Inr settings' \<and>
      config_get settings' ''video_creation.resolution.width'' PNone = PInt 1080)"
proof -
  have h: "intermediate_keys_free [(''video_creation'', PDict [(''fps'', PInt 30)])]
             (split_on CHR ''.'' ''video_creation.resolution.width'')"
    by simp
  show ?thesis
    using h config_set_then_get [OF h, of "PInt 1080" PNone] by blast
qed


section \<open>Formatting and enriching a joke\<close>

lemma official_joke_api_url:
  "sublist ''official-joke-api'' ''https://official-joke-api.appspot.com/random_joke''"
  by (simp add: sublist_code)

lemma jokeapi_dev_url:
  "\<not> sublist ''official-joke-api''
      ''https://v2.jokeapi.dev/joke/Any?blacklistFlags=nsfw,religious,political,racist,sexist,explicit&type=single''"
  "sublist ''jokeapi.dev''
      ''https://v2.jokeapi.dev/joke/Any?blacklistFlags=nsfw,religious,political,racist,sexist,explicit&type=single''"
  by (simp_all add: sublist_code)

lemma icanhazdadjoke_url:
  "\<not> sublist ''official-joke-api'' ''https://icanhazdadjoke.com/''"
  "\<not> sublist ''jokeapi.dev'' ''https://icanhazdadjoke.com/''"
  "sublist ''icanhazdadjoke'' ''https://icanhazdadjoke.com/''"
  by (simp_all add: sublist_code)



text \<open>\<open>format_script\<close>, branch by branch.\<close>

lemma format_script_no_type:
  assumes "map_of joke_data ''type'' = None"
  shows "format_script ts joke_data = Inl (KeyError ''type'')"
  using assms by (simp add: format_script_def dict_item_def Let_def)

lemma format_script_two_part:
  assumes "map_of joke_data ''type'' = Some ''dad_joke''" "map_of joke_data ''setup'' = Some s"
    and "map_of joke_data ''punchline'' = Some p"
  shows "format_script ts joke_data =
         Inr (empty_script
           \<lparr>sd_timestamp := Some ts, sd_source := Some ''api'', sd_type := Some ''dad_joke'',
            sd_script := Some (s @ '' '' @ p), sd_setup := Some s, sd_punchline := Some p,
            sd_duration := Some 6, sd_topic := Some ''dad joke''\<rparr>)"
  using assms by (simp add: format_script_def has_key_def dict_get_def dict_item_def Let_def)

lemma format_script_no_punchline:
  assumes "map_of joke_data ''type'' = Some ''dad_joke''" "map_of joke_data ''setup'' = Some s"
    and "map_of joke_data ''punchline'' = None"
  shows "format_script ts joke_data = Inl (KeyError ''punchline'')"
  using assms by (simp add: format_script_def has_key_def dict_get_def dict_item_def Let_def)

lemma format_script_one_liner:
  assumes "map_of joke_data ''type'' = Some ''one_liner''" "map_of joke_data ''joke'' = Some j"
  shows "format_script ts joke_data =
         Inr (empty_script
           \<lparr>sd_timestamp := Some ts, sd_source := Some ''api'', sd_type := Some ''one_liner'',
            sd_script := Some j, sd_duration := Some 4, sd_topic := Some ''one liner''\<rparr>)"
  using assms by (simp add: format_script_def has_key_def dict_get_def dict_item_def Let_def)

lemma format_script_fallback:
  assumes "map_of joke_data ''type'' = Some ty"
    and "\<not> (ty = ''dad_joke'' \<and> has_key joke_data ''setup'')"
    and "\<not> (ty = ''one_liner'' \<and> has_key joke_data ''joke'')"
  shows "format_script ts joke_data =
         Inr (empty_script
           \<lparr>sd_timestamp := Some ts,
            sd_source := Some (if has_key joke_data ''setup'' \<or> has_key joke_data ''joke''
                               then ''api'' else ''backup''),
            sd_type := Some ty,
            sd_script := Some (dict_get joke_data ''joke''
               (dict_get joke_data ''setup'' [] @ '' '' @ dict_get joke_data ''punchline'' [])),
            sd_duration := Some (int (length (split_whitespace (dict_get joke_data ''joke''
               (dict_get joke_data ''setup'' [] @ '' '' @ dict_get joke_data ''punchline'' [])))) div 2),
            sd_topic := Some ''humor''\<rparr>)"
proof (cases "ty = ''dad_joke''")
  case True
  with assms show ?thesis
    unfolding format_script_def Let_def dict_item_def by (simp add: dict_get_def)
next
  case False
  with assms show ?thesis
    unfolding format_script_def Let_def dict_item_def
    by (cases "ty = ''one_liner''") (simp_all add: dict_get_def)
qed

lemma format_script_fields:
  assumes "format_script ts joke_data = Inr sd"
  shows "\<exists>ty text d. sd_type sd = Some ty \<and> sd_script sd = Some text \<and> sd_duration sd = Some d"
proof (cases "map_of joke_data ''type''")
  case None
  with assms show ?thesis by (simp add: format_script_no_type)
next
  case (Some ty)
  show ?thesis
  proof (cases "ty = ''dad_joke'' \<and> has_key joke_data ''setup''")
    case True
    then obtain s where s: "map_of joke_data ''setup'' = Some s"
      by (auto simp: has_key_def)
    show ?thesis
    proof (cases "map_of joke_data ''punchline''")
      case None
      with assms Some True s show ?thesis by (simp add: format_script_no_punchline)
    next
      case (Some p)
      from format_script_two_part [of joke_data s p ts] \<open>map_of joke_data ''type'' = Some ty\<close>
        True s Some assms
      have "sd = empty_script
           \<lparr>sd_timestamp := Some ts, sd_source := Some ''api'', sd_type := Some ''dad_joke'',
            sd_script := Some (s @ '' '' @ p), sd_setup := Some s, sd_punchline := Some p,
            sd_duration := Some 6, sd_topic := Some ''dad joke''\<rparr>"
        by simp
      then show ?thesis by simp
    qed
  next
    case not_two: False
    show ?thesis
    proof (cases "ty = ''one_liner'' \<and> has_key joke_data ''joke''")
      case True
      then obtain j where j: "map_of joke_data ''joke'' = Some j"
        by (auto simp: has_key_def)
      from format_script_one_liner [of joke_data j ts] Some True j assms
      have "sd = empty_script
           \<lparr>sd_timestamp := Some ts, sd_source := Some ''api'', sd_type := Some ''one_liner'',
            sd_script := Some j, sd_duration := Some 4, sd_topic := Some ''one liner''\<rparr>"
        by simp
      then show ?thesis by simp
    next
      case False
      from format_script_fallback [OF Some not_two False, of ts] assms
      show ?thesis by auto
    qed
  qed
qed

lemma enhance_formatted:
  assumes "sd_type sd = Some ty" "sd_script sd = Some text" "sd_duration sd = Some d"
  shows "\<exists>e. enhance_script_for_video sd = Inr e \<and> sd_script e = Some text \<and>
             sd_type e = Some ty \<and> sd_duration e = Some d"
  using assms by (simp add: enhance_script_for_video_def get_field_def Let_def)

lemma format_script_clock:
  "map_sum id (\<lambda>sd. sd\<lparr>sd_timestamp := None\<rparr>) (format_script ts joke_data) =
   map_sum id (\<lambda>sd. sd\<lparr>sd_timestamp := None\<rparr>) (format_script ts' joke_data)"
  by (simp add: format_script_def dict_item_def Let_def split: option.splits)

lemma enhance_function_of_kind_and_text:
  assumes "sd_type sd = sd_type sd'" "sd_setup sd = sd_setup sd'"
    and "sd_punchline sd = sd_punchline sd'" "sd_script sd = sd_script sd'"
    and "sd_duration sd = sd_duration sd'"
  shows "map_sum id (\<lambda>e. (sd_visual_cues e, sd_text_overlays e)) (enhance_script_for_video sd) =
         map_sum id (\<lambda>e. (sd_visual_cues e, sd_text_overlays e)) (enhance_script_for_video sd')"
  using assms
  by (simp add: enhance_script_for_video_def get_field_def Let_def split: option.splits)

text \<open>
  C6. \<open>format_script\<close> sets the duration by the kind of the joke: 6 for a two-part
  joke (type \<open>dad_joke\<close> with a setup and a punchline), 4 for a one-liner (type
  \<open>one_liner\<close> with a joke), and in every other case half the number of words of the
  script text, rounded down. Nothing but the timestamp depends on the clock. The visual
  cues and text overlays that \<open>enhance_script_for_video\<close> adds are a function of the
  type, the setup, the punchline, the script text and the duration alone, and the
  enrichment of a formatted script never fails.
\<close>

theorem format_script_duration_by_kind:
  "(map_of joke_data ''type'' = Some ''dad_joke'' \<and> map_of joke_data ''setup'' = Some s \<and>
    map_of joke_data ''punchline'' = Some p \<longrightarrow>
      (\<exists>sd. format_script ts joke_data = Inr sd \<and> sd_duration sd = Some 6)) \<and>
   (map_of joke_data ''type'' = Some ''one_liner'' \<and> map_of joke_data ''joke'' = Some j \<longrightarrow>
      (\<exists>sd. format_script ts joke_data = Inr sd \<and> sd_duration sd = Some 4)) \<and>
   (map_of joke_data ''type'' = Some ty \<and>
    \<not> (ty = ''dad_joke'' \<and> has_key joke_data ''setup'') \<and>
    \<not> (ty = ''one_liner'' \<and> has_key joke_data ''joke'') \<longrightarrow>
      (\<exists>sd text. format_script ts joke_data = Inr sd \<and> sd_script sd = Some text \<and>
         sd_duration sd = Some (int (length (split_whitespace text)) div 2))) \<and>
   (\<forall>ts'. map_sum id (\<lambda>sd. sd\<lparr>sd_timestamp := None\<rparr>) (format_script ts joke_data) =
          map_sum id (\<lambda>sd. sd\<lparr>sd_timestamp := None\<rparr>) (format_script ts' joke_data)) \<and>
   (\<forall>sd sd'. sd_type sd = sd_type sd' \<and> sd_setup sd = sd_setup sd' \<and>
             sd_punchline sd = sd_punchline sd' \<and> sd_script sd = sd_script sd' \<and>
             sd_duration sd = sd_duration sd' \<longrightarrow>
        map_sum id (\<lambda>e. (sd_visual_cues e, sd_text_overlays e)) (enhance_script_for_video sd) =
        map_sum id (\<lambda>e. (sd_visual_cues e, sd_text_overlays e)) (enhance_script_for_video sd')) \<and>
   (\<forall>sd. format_script ts joke_data = Inr sd \<longrightarrow> (\<exists>e. enhance_script_for_video sd = Inr e))"
proof (intro conjI allI impI)
  assume "map_of joke_data ''type'' = Some ''dad_joke'' \<and> map_of joke_data ''setup'' = Some s \<and>
          map_of joke_data ''punchline'' = Some p"
  then show "\<exists>sd. format_script ts joke_data = Inr sd \<and> sd_duration sd = Some 6"
    by (simp add: format_script_two_part)
next
  assume "map_of joke_data ''type'' = Some ''one_liner'' \<and> map_of joke_data ''joke'' = Some j"
  then show "\<exists>sd. format_script ts joke_data = Inr sd \<and> sd_duration sd = Some 4"
    by (simp add: format_script_one_liner)
next
  assume a: "map_of joke_data ''type'' = Some ty \<and>
          \<not> (ty = ''dad_joke'' \<and> has_key joke_data ''setup'') \<and>
          \<not> (ty = ''one_liner'' \<and> has_key joke_data ''joke'')"
  then have "map_of joke_data ''type'' = Some ty"
    and "\<not> (ty = ''dad_joke'' \<and> has_key joke_data ''setup'')"
    and "\<not> (ty = ''one_liner'' \<and> has_key joke_data ''joke'')"
    by blast+
  from format_script_fallback [OF this, of ts]
  show "\<exists>sd text. format_script ts joke_data = Inr sd \<and> sd_script sd = Some text \<and>
               sd_duration sd = Some (int (length (split_whitespace text)) div 2)"
    by simp
next
  fix ts'
  show "map_sum id (\<lambda>sd. sd\<lparr>sd_timestamp := None\<rparr>) (format_script ts joke_data) =
        map_sum id (\<lambda>sd. sd\<lparr>sd_timestamp := None\<rparr>) (format_script ts' joke_data)"
    by (rule format_script_clock)
next
  fix sd sd' :: script_dict
  assume "sd_type sd = sd_type sd' \<and> sd_setup sd = sd_setup sd' \<and>
          sd_punchline sd = sd_punchline sd' \<and> sd_script sd = sd_script sd' \<and>
          sd_duration sd = sd_duration sd'"
  then show "map_sum id (\<lambda>e. (sd_visual_cues e, sd_text_overlays e)) (enhance_script_for_video sd) =
             map_sum id (\<lambda>e. (sd_visual_cues e, sd_text_overlays e)) (enhance_script_for_video sd')"
    using enhance_function_of_kind_and_text [of sd sd'] by blast
next
  fix sd
  assume "format_script ts joke_data = Inr sd"
  from format_script_fields [OF this] enhance_formatted
  show "\<exists>e. enhance_script_for_video sd = Inr e"
    by blast
qed


theorem format_script_duration_by_kind_witness:
  "map_of (backup_jokes ! 0) ''type'' = Some ''dad_joke'' \<and>
   map_of (backup_jokes ! 0) ''setup'' = Some ''Why don't scientists trust atoms?'' \<and>
   map_of (backup_jokes ! 0) ''punchline'' = Some ''Because they make up everything!'' \<and>
   (\<exists>sd. format_script ''2024-05-01T10:00:00'' (backup_jokes ! 0) = Inr sd \<and>
         sd_duration sd = Some 6) \<and>
   map_of (backup_jokes ! 6) ''type'' = Some ''one_liner'' \<and>
   map_of (backup_jokes ! 6) ''joke'' = Some ''I invented a new word: Plagiarism!'' \<and>
   (\<exists>sd. format_script ''2024-05-01T10:00:00'' (backup_jokes ! 6) = Inr sd \<and>
         sd_duration sd = Some 4) \<and>
   (\<exists>sd. format_script ''2024-05-01T10:00:00''
           [(''type'', ''story_joke''), (''setup'', ''A man walks into a bar.''),
            (''punchline'', ''Ouch.'')] = Inr sd \<and>
         sd_script sd = Some ''A man walks into a bar. Ouch.'' \<and>
         sd_duration sd = Some 3) \<and>
   map_sum id (\<lambda>e. (sd_visual_cues e, sd_text_overlays e))
     (enhance_script_for_video
        (empty_script\<lparr>sd_type := Some ''one_liner'', sd_script := Some ''Hi there'',
                       sd_duration := Some 4, sd_timestamp := Some ''2024-05-01T10:00:00''\<rparr>)) =
   map_sum id (\<lambda>e. (sd_visual_cues e, sd_text_overlays e))
     (enhance_script_for_video
        (empty_script\<lparr>sd_type := Some ''one_liner'', sd_script := Some ''Hi there'',
                       sd_duration := Some 4, sd_timestamp := Some ''2025-01-01T00:00:00''\<rparr>))"
proof -
  let ?ts = "''2024-05-01T10:00:00''"
  let ?story = "[(''type'', ''story_joke''), (''setup'', ''A man walks into a bar.''),
                 (''punchline'', ''Ouch.'')]"
  let ?a = "empty_script\<lparr>sd_type := Some ''one_liner'', sd_script := Some ''Hi there'',
                       sd_duration := Some 4, sd_timestamp := Some ''2024-05-01T10:00:00''\<rparr>"
  let ?b = "empty_script\<lparr>sd_type := Some ''one_liner'', sd_script := Some ''Hi there'',
                       sd_duration := Some 4, sd_timestamp := Some ''2025-01-01T00:00:00''\<rparr>"
  have h1: "map_of (backup_jokes ! 0) ''type'' = Some ''dad_joke'' \<and>
            map_of (backup_jokes ! 0) ''setup'' = Some ''Why don't scientists trust atoms?'' \<and>
            map_of (backup_jokes ! 0) ''punchline'' = Some ''Because they make up everything!''"
    by (simp add: backup_jokes_def)
  have h2: "map_of (backup_jokes ! 6) ''type'' = Some ''one_liner'' \<and>
            map_of (backup_jokes ! 6) ''joke'' = Some ''I invented a new word: Plagiarism!''"
    by (simp add: backup_jokes_def)
  have h3: "map_of ?story ''type'' = Some ''story_joke'' \<and>
            \<not> (''story_joke'' = ''dad_joke'' \<and> has_key ?story ''setup'') \<and>
            \<not> (''story_joke'' = ''one_liner'' \<and> has_key ?story ''joke'')"
    by simp
  have h4: "sd_type ?a = sd_type ?b \<and> sd_setup ?a = sd_setup ?b \<and>
            sd_punchline ?a = sd_punchline ?b \<and> sd_script ?a = sd_script ?b \<and>
            sd_duration ?a = sd_duration ?b"
    by simp
  note t1 = format_script_duration_by_kind
    [of "backup_jokes ! 0" "''Why don't scientists trust atoms?''"
        "''Because they make up everything!''" ?ts]
  note t2 = format_script_duration_by_kind
    [of "backup_jokes ! 6" _ _ ?ts "''I invented a new word: Plagiarism!''"]
  note t3 = format_script_duration_by_kind [of ?story _ _ ?ts _ "''story_joke''"]
  have c1: "\<exists>sd. format_script ?ts (backup_jokes ! 0) = Inr sd \<and> sd_duration sd = Some 6"
    by (rule t1 [THEN conjunct1, THEN mp, OF h1])
  have c2: "\<exists>sd. format_script ?ts (backup_jokes ! 6) = Inr sd \<and> sd_duration sd = Some 4"
    by (rule t2 [THEN conjunct2, THEN conjunct1, THEN mp, OF h2])
  from t3 [THEN conjunct2, THEN conjunct2, THEN conjunct1, THEN mp, OF h3]
  obtain sd script_text where f: "format_script ?ts ?story = Inr sd" and s: "sd_script sd = Some script_text"
    and d: "sd_duration sd = Some (int (length (split_whitespace script_text)) div 2)"
    by (elim exE conjE)
  have "format_script ?ts ?story =
        Inr (empty_script
           \<lparr>sd_timestamp := Some ?ts, sd_source := Some ''api'', sd_type := Some ''story_joke'',
            sd_script := Some ''A man walks into a bar. Ouch.'',
            sd_duration := Some (int (length (split_whitespace ''A man walks into a bar. Ouch.'')) div 2),
            sd_topic := Some ''humor''\<rparr>)"
    by (simp add: format_script_def dict_item_def dict_get_def has_key_def Let_def)
  with f s have script_text: "script_text = ''A man walks into a bar. Ouch.''"
    by auto
  have "int (length (split_whitespace ''A man walks into a bar. Ouch.'')) div 2 = 3"
    by (simp add: split_whitespace_def isspace_def)
  with f s d script_text have c3: "\<exists>sd. format_script ?ts ?story = Inr sd \<and>
         sd_script sd = Some ''A man walks into a bar. Ouch.'' \<and> sd_duration sd = Some 3"
    by simp
  have c4: "map_sum id (\<lambda>e. (sd_visual_cues e, sd_text_overlays e)) (enhance_script_for_video ?a) =
            map_sum id (\<lambda>e. (sd_visual_cues e, sd_text_overlays e)) (enhance_script_for_video ?b)"
    by (rule t1 [THEN conjunct2, THEN conjunct2, THEN conjunct2, THEN conjunct2,
                 THEN conjunct1, THEN spec, THEN spec, THEN mp, OF h4])
  show ?thesis
    by (intro conjI h1 [THEN conjunct1] h1 [THEN conjunct2, THEN conjunct1]
          h1 [THEN conjunct2, THEN conjunct2] c1 h2 [THEN conjunct1] h2 [THEN conjunct2]
          c2 c3 c4)
qed


section \<open>Normalising the answers of the three services\<close>

lemma fetch_official_joke_api:
  "fetch_joke_from_api ''https://official-joke-api.appspot.com/random_joke'' (Body data) =
   Some [(''setup'', dict_get data ''setup'' []),
         (''punchline'', dict_get data ''punchline'' []),
         (''type'', ''dad_joke'')]"
  by (simp add: fetch_joke_from_api_def official_joke_api_url)

lemma fetch_jokeapi_dev:
  "fetch_joke_from_api
     ''https://v2.jokeapi.dev/joke/Any?blacklistFlags=nsfw,religious,political,racist,sexist,explicit&type=single''
     (Body data) =
   (if map_of data ''type'' = Some ''single''
    then Some [(''joke'', dict_get data ''joke'' []), (''type'', ''one_liner'')]
    else Some [(''setup'', dict_get data ''setup'' []),
               (''punchline'', dict_get data ''delivery'' []),
               (''type'', ''dad_joke'')])"
  by (simp add: fetch_joke_from_api_def jokeapi_dev_url)

lemma fetch_icanhazdadjoke:
  "fetch_joke_from_api ''https://icanhazdadjoke.com/'' (Body data) =
   Some [(''joke'', dict_get data ''joke'' []), (''type'', ''one_liner'')]"
  by (simp add: fetch_joke_from_api_def icanhazdadjoke_url)

lemma two_part_formatted:
  "\<exists>sd. format_script ts [(''setup'', s), (''punchline'', p), (''type'', ''dad_joke'')] = Inr sd \<and>
        sd_type sd = Some ''dad_joke'' \<and> sd_script sd = Some (s @ '' '' @ p) \<and>
        sd_duration sd = Some 6"
  using format_script_two_part [of "[(''setup'', s), (''punchline'', p), (''type'', ''dad_joke'')]" s p ts]
  by simp

lemma one_liner_formatted:
  "\<exists>sd. format_script ts [(''joke'', j), (''type'', ''one_liner'')] = Inr sd \<and>
        sd_type sd = Some ''one_liner'' \<and> sd_script sd = Some j \<and> sd_duration sd = Some 4"
  using format_script_one_liner [of "[(''joke'', j), (''type'', ''one_liner'')]" j ts]
  by simp

text \<open>
  C7, as the code has it. For each of the three URLs and every JSON object the service
  answers with, normalisation and formatting succeed; the script has a type, which is
  \<open>dad_joke\<close> or \<open>one_liner\<close>, and a script text. The text of a two-part joke is
  never empty (it holds at least the space between setup and punchline); the text of a
  one-liner is the \<open>joke\<close> field of the answer, and the empty string when the answer
  has no such field.
\<close>

theorem normalized_script_populated:
  assumes "api_url \<in> set joke_apis"
  shows "\<exists>joke_data sd script_text.
           fetch_joke_from_api api_url (Body data) = Some joke_data \<and>
           format_script ts joke_data = Inr sd \<and>
           sd_script sd = Some script_text \<and>
           (sd_type sd = Some ''dad_joke'' \<and> script_text \<noteq> [] \<or>
            sd_type sd = Some ''one_liner'' \<and> script_text = dict_get data ''joke'' [])"
proof -
  from assms consider
      (official) "api_url = ''https://official-joke-api.appspot.com/random_joke''"
    | (jokeapi) "api_url = ''https://v2.jokeapi.dev/joke/Any?blacklistFlags=nsfw,religious,political,racist,sexist,explicit&type=single''"
    | (icanhaz) "api_url = ''https://icanhazdadjoke.com/''"
    unfolding joke_apis_def by auto
  then show ?thesis
  proof cases
    case official
    from two_part_formatted [of ts "dict_get data ''setup'' []" "dict_get data ''punchline'' []"]
    show ?thesis
      unfolding official fetch_official_joke_api by auto
  next
    case jokeapi
    show ?thesis
    proof (cases "map_of data ''type'' = Some ''single''")
      case True
      from one_liner_formatted [of ts "dict_get data ''joke'' []"] True
      show ?thesis
        unfolding jokeapi fetch_jokeapi_dev by auto
    next
      case False
      from two_part_formatted [of ts "dict_get data ''setup'' []" "dict_get data ''delivery'' []"]
        False
      show ?thesis
        unfolding jokeapi fetch_jokeapi_dev by auto
    qed
  next
    case icanhaz
    from one_liner_formatted [of ts "dict_get data ''joke'' []"]
    show ?thesis
      unfolding icanhaz fetch_icanhazdadjoke by auto
  qed
qed


theorem normalized_script_populated_witness:
  "''https://official-joke-api.appspot.com/random_joke'' \<in> set joke_apis \<and>
   (\<exists>joke_data sd script_text.
      fetch_joke_from_api ''https://official-joke-api.appspot.com/random_joke''
        (Body [(''type'', ''general''), (''setup'', ''What do you call a fake noodle?''),
               (''punchline'', ''An impasta!'')]) = Some joke_data \<and>
      format_script ''2024-05-01T10:00:00'' joke_data = Inr sd \<and>
      sd_script sd = Some script_text \<and>
      (sd_type sd = Some ''dad_joke'' \<and> script_text \<noteq> [] \<or>
       sd_type sd = Some ''one_liner'' \<and>
       script_text = dict_get [(''type'', ''general''), (''setup'', ''What do you call a fake noodle?''),
                               (''punchline'', ''An impasta!'')] ''joke'' []))"
proof -
  have h: "''https://official-joke-api.appspot.com/random_joke'' \<in> set joke_apis"
    by (simp add: joke_apis_def)
  from h normalized_script_populated [OF h] show ?thesis
    by (rule conjI)
qed

text \<open>
  C7 as stated fails: the answer of icanhazdadjoke.com with an empty \<open>joke\<close> string is
  normalised to a one-liner and formatted to a script whose text is empty.
\<close>

theorem empty_joke_gives_empty_script:
  "fetch_joke_from_api ''https://icanhazdadjoke.com/''
     (Body [(''id'', ''R7UfaahVfFd''), (''joke'', [])]) =
   Some [(''joke'', []), (''type'', ''one_liner'')] \<and>
   format_script ''2024-05-01T10:00:00'' [(''joke'', []), (''type'', ''one_liner'')] =
   Inr (empty_script
          \<lparr>sd_timestamp := Some ''2024-05-01T10:00:00'', sd_source := Some ''api'',
           sd_type := Some ''one_liner'', sd_script := Some [], sd_duration := Some 4,
           sd_topic := Some ''one liner''\<rparr>)"
  by (simp add: fetch_icanhazdadjoke dict_get_def format_script_one_liner)

section \<open>Generating a script\<close>

















text \<open>
  On answers whose fields are strings, the functions on JSON values are the functions
  on strings of the first section.
\<close>

lemma map_of_json_dict: "map_of (json_dict d) k = map_option JString (map_of d k)"
  by (induction d) (auto simp: json_dict_def)

lemma json_dict_Nil: "json_dict [] = []"
  by (simp add: json_dict_def)

lemma json_dict_Cons: "json_dict ((k, v) # d) = (k, JString v) # json_dict d"
  by (simp add: json_dict_def)

lemma json_get_of_strings:
  "json_get (json_dict d) k (JString dflt) = JString (dict_get d k dflt)"
  by (simp add: json_get_def dict_get_def map_of_json_dict split: option.splits)

lemma single_of_strings:
  "(map_of (json_dict d) ''type'' = Some (JString ''single'')) = (map_of d ''type'' = Some ''single'')"
  by (auto simp: map_of_json_dict)

lemma fetch_json_of_strings:
  "fetch_joke_from_api_json api_url (Answer (JObject (json_dict data))) =
   map_option json_dict (fetch_joke_from_api api_url (Body data))"
  unfolding fetch_joke_from_api_json_def fetch_joke_from_api_def
  by (simp add: json_get_of_strings single_of_strings json_dict_Nil json_dict_Cons)

lemma enhance_json_of_strings:
  "enhance_script_for_video_json (json_of_script sd) =
   map_sum id json_of_script (enhance_script_for_video sd)"
proof (cases "sd_type sd")
  case None
  then show ?thesis
    by (simp add: enhance_script_for_video_json_def enhance_script_for_video_def
          json_of_script_def get_field_def Let_def)
next
  case (Some ty)
  show ?thesis
  proof (cases "ty = ''dad_joke''")
    case True
    with Some show ?thesis
      unfolding enhance_script_for_video_json_def enhance_script_for_video_def Let_def
      by (simp add: json_of_script_def get_field_def split: option.splits)
  next
    case False
    show ?thesis
    proof (cases "sd_duration sd")
      case None
      with Some False show ?thesis
        unfolding enhance_script_for_video_json_def enhance_script_for_video_def Let_def
        by (simp add: json_of_script_def get_field_def)
    next
      case d: (Some d)
      show ?thesis
      proof (cases "sd_script sd")
        case None
        with Some False d show ?thesis
          unfolding enhance_script_for_video_json_def enhance_script_for_video_def Let_def
          by (simp add: json_of_script_def get_field_def)
      next
        case s: (Some s)
        with Some False d show ?thesis
          unfolding enhance_script_for_video_json_def enhance_script_for_video_def Let_def
          by (simp add: json_of_script_def get_field_def)
      qed
    qed
  qed
qed

lemma fstr_of_string: "fstr str_of (JString s) = s"
  by (simp add: fstr_def)

lemma json_of_empty_script: "json_of_script empty_script = empty_json_script"
  by (simp add: json_of_script_def empty_script_def empty_json_script_def)

lemma format_json_of_strings:
  "format_script_json str_of ts (json_dict joke_data) =
   map_sum id json_of_script (format_script ts joke_data)"
proof (cases "map_of joke_data ''type''")
  case None
  then show ?thesis
    by (simp add: format_script_no_type format_script_json_def json_item_def map_of_json_dict
          Let_def)
next
  case (Some ty)
  show ?thesis
  proof (cases "ty = ''dad_joke'' \<and> has_key joke_data ''setup''")
    case True
    then obtain s where s: "map_of joke_data ''setup'' = Some s"
      by (auto simp: has_key_def)
    show ?thesis
    proof (cases "map_of joke_data ''punchline''")
      case None
      with Some True s show ?thesis
        unfolding format_script_json_def Let_def
        by (simp add: format_script_no_punchline json_item_def map_of_json_dict)
    next
      case p: (Some p)
      from Some True s p have
        "format_script ts joke_data =
         Inr (empty_script
           \<lparr>sd_timestamp := Some ts, sd_source := Some ''api'', sd_type := Some ''dad_joke'',
            sd_script := Some (s @ '' '' @ p), sd_setup := Some s, sd_punchline := Some p,
            sd_duration := Some 6, sd_topic := Some ''dad joke''\<rparr>)"
        by (simp add: format_script_two_part)
      moreover from Some True s p have
        "format_script_json str_of ts (json_dict joke_data) =
         Inr (empty_json_script
           \<lparr>js_timestamp := Some ts, js_source := Some ''api'',
            js_type := Some (JString ''dad_joke''),
            js_script := Some (JString (s @ '' '' @ p)),
            js_setup := Some (JString s), js_punchline := Some (JString p),
            js_duration := Some 6, js_topic := Some ''dad joke''\<rparr>)"
        unfolding format_script_json_def Let_def
        by (simp add: json_item_def json_get_def map_of_json_dict fstr_of_string)
      ultimately show ?thesis
        by (simp add: json_of_script_def empty_script_def empty_json_script_def)
    qed
  next
    case not_two: False
    show ?thesis
    proof (cases "ty = ''one_liner'' \<and> has_key joke_data ''joke''")
      case True
      then obtain j where j: "map_of joke_data ''joke'' = Some j"
        by (auto simp: has_key_def)
      from Some True j have
        "format_script ts joke_data =
         Inr (empty_script
           \<lparr>sd_timestamp := Some ts, sd_source := Some ''api'', sd_type := Some ''one_liner'',
            sd_script := Some j, sd_duration := Some 4, sd_topic := Some ''one liner''\<rparr>)"
        by (simp add: format_script_one_liner)
      moreover from Some True j have
        "format_script_json str_of ts (json_dict joke_data) =
         Inr (empty_json_script
           \<lparr>js_timestamp := Some ts, js_source := Some ''api'',
            js_type := Some (JString ''one_liner''),
            js_script := Some (JString j), js_duration := Some 4,
            js_topic := Some ''one liner''\<rparr>)"
        unfolding format_script_json_def Let_def
        by (simp add: json_item_def json_get_def map_of_json_dict)
      ultimately show ?thesis
        by (simp add: json_of_script_def empty_script_def empty_json_script_def)
    next
      case False
      let ?text = "dict_get joke_data ''joke''
               (dict_get joke_data ''setup'' [] @ '' '' @ dict_get joke_data ''punchline'' [])"
      let ?source = "if has_key joke_data ''setup'' \<or> has_key joke_data ''joke''
                     then ''api'' else ''backup''"
      from format_script_fallback [OF Some not_two False, of ts] have
        "format_script ts joke_data =
         Inr (empty_script
           \<lparr>sd_timestamp := Some ts, sd_source := Some ?source, sd_type := Some ty,
            sd_script := Some ?text,
            sd_duration := Some (int (length (split_whitespace ?text)) div 2),
            sd_topic := Some ''humor''\<rparr>)" .
      moreover have
        "format_script_json str_of ts (json_dict joke_data) =
         Inr (empty_json_script
           \<lparr>js_timestamp := Some ts, js_source := Some ?source,
            js_type := Some (JString ty),
            js_script := Some (JString ?text),
            js_duration := Some (int (length (split_whitespace ?text)) div 2),
            js_topic := Some ''humor''\<rparr>)"
      proof (cases "ty = ''dad_joke''")
        case True
        with Some not_two False show ?thesis
          unfolding format_script_json_def Let_def
          by (simp add: json_item_def json_get_of_strings fstr_of_string map_of_json_dict
                has_key_def json_get_def [of _ "''type''"])
      next
        case not_dad: False
        show ?thesis
        proof (cases "ty = ''one_liner''")
          case True
          with Some not_two False not_dad show ?thesis
            unfolding format_script_json_def Let_def
            by (simp add: json_item_def json_get_of_strings fstr_of_string map_of_json_dict
                  has_key_def json_get_def [of _ "''type''"])
        next
          case False
          with Some not_dad show ?thesis
            unfolding format_script_json_def Let_def
            by (simp add: json_item_def json_get_of_strings fstr_of_string map_of_json_dict
                  has_key_def json_get_def [of _ "''type''"])
        qed
      qed
      ultimately show ?thesis
        by (simp add: json_of_script_def empty_script_def empty_json_script_def)
    qed
  qed
qed

section \<open>The resumable upload\<close>

text \<open>One iteration of the loop, by what \<open>next_chunk\<close> gives.\<close>

lemma loop_response:
  "t (calls s) = Response r \<Longrightarrow>
   resumable_loop t s = Some (r, s\<lparr>calls := calls s + 1\<rparr>)"
  by (subst resumable_loop.simps) (simp add: Let_def)

lemma loop_retriable:
  "t (calls s) = HttpError status \<Longrightarrow> status \<in> {500, 502, 503, 504} \<Longrightarrow> retry s < 3 \<Longrightarrow>
   resumable_loop t s =
   resumable_loop t
     (s\<lparr>calls := calls s + 1, error := True, retry := retry s + 1,
        sleeps := sleeps s @ [2 ^ (retry s + 1)]\<rparr>)"
  by (subst resumable_loop.simps) (auto simp add: Let_def)

lemma loop_exhausted:
  "t (calls s) = HttpError status \<Longrightarrow> status \<in> {500, 502, 503, 504} \<Longrightarrow> 3 \<le> retry s \<Longrightarrow>
   resumable_loop t s =
   Some (None, s\<lparr>calls := calls s + 1, error := True, retry := retry s + 1\<rparr>)"
  by (subst resumable_loop.simps) (auto simp add: Let_def)

lemma two_errors_then_response:
  assumes "t 0 = HttpError a" "a \<in> {500, 502, 503, 504}"
    and "t 1 = HttpError b" "b \<in> {500, 502, 503, 504}"
    and "t 2 = Response r"
  shows "resumable_upload t = Some (r, \<lparr>calls = 3, error = True, retry = 2, sleeps = [2, 4]\<rparr>)"
proof -
  have "resumable_loop t \<lparr>calls = 0, error = False, retry = 0, sleeps = []\<rparr> =
        resumable_loop t \<lparr>calls = 1, error = True, retry = 1, sleeps = [2]\<rparr>"
    using loop_retriable [of t "\<lparr>calls = 0, error = False, retry = 0, sleeps = []\<rparr>" a] assms(1,2)
    by (simp add: eval_nat_numeral)
  also have "\<dots> = resumable_loop t \<lparr>calls = 2, error = True, retry = 2, sleeps = [2, 4]\<rparr>"
    using loop_retriable [of t "\<lparr>calls = 1, error = True, retry = 1, sleeps = [2]\<rparr>" b] assms(3,4)
    by (simp add: eval_nat_numeral)
  also have "\<dots> = Some (r, \<lparr>calls = 3, error = True, retry = 2, sleeps = [2, 4]\<rparr>)"
    using loop_response [of t "\<lparr>calls = 2, error = True, retry = 2, sleeps = [2, 4]\<rparr>" r] assms(5)
    by simp
  finally show ?thesis by (simp add: resumable_upload_def)
qed

lemma four_errors:
  assumes "\<forall>n<4. \<exists>status \<in> {500, 502, 503, 504}. t n = HttpError status"
  shows "resumable_upload t =
         Some (None, \<lparr>calls = 4, error = True, retry = 4, sleeps = [2, 4, 8]\<rparr>)"
proof -
  from assms have "\<exists>status \<in> {500, 502, 503, 504}. t 0 = HttpError status"
    and "\<exists>status \<in> {500, 502, 503, 504}. t 1 = HttpError status"
    and "\<exists>status \<in> {500, 502, 503, 504}. t 2 = HttpError status"
    and "\<exists>status \<in> {500, 502, 503, 504}. t 3 = HttpError status"
    by simp_all
  then obtain a b c d where
    t: "t 0 = HttpError a" "t 1 = HttpError b" "t 2 = HttpError c" "t 3 = HttpError d" and
    r: "a \<in> {500, 502, 503, 504}" "b \<in> {500, 502, 503, 504}" "c \<in> {500, 502, 503, 504}"
       "d \<in> {500, 502, 503, 504}"
    by (elim bexE) blast
  have "resumable_loop t \<lparr>calls = 0, error = False, retry = 0, sleeps = []\<rparr> =
        resumable_loop t \<lparr>calls = 1, error = True, retry = 1, sleeps = [2]\<rparr>"
    using loop_retriable [of t "\<lparr>calls = 0, error = False, retry = 0, sleeps = []\<rparr>" a] t(1) r(1)
    by (simp add: eval_nat_numeral)
  also have "\<dots> = resumable_loop t \<lparr>calls = 2, error = True, retry = 2, sleeps = [2, 4]\<rparr>"
    using loop_retriable [of t "\<lparr>calls = 1, error = True, retry = 1, sleeps = [2]\<rparr>" b] t(2) r(2)
    by (simp add: eval_nat_numeral)
  also have "\<dots> = resumable_loop t \<lparr>calls = 3, error = True, retry = 3, sleeps = [2, 4, 8]\<rparr>"
    using loop_retriable [of t "\<lparr>calls = 2, error = True, retry = 2, sleeps = [2, 4]\<rparr>" c] t(3) r(3)
    by (simp add: eval_nat_numeral)
  also have "\<dots> = Some (None, \<lparr>calls = 4, error = True, retry = 4, sleeps = [2, 4, 8]\<rparr>)"
    using loop_exhausted [of t "\<lparr>calls = 3, error = True, retry = 3, sleeps = [2, 4, 8]\<rparr>" d] t(4) r(4)
    by simp
  finally show ?thesis by (simp add: resumable_upload_def)
qed

text \<open>
  C2, as the code has it. A retriable status (500, 502, 503, 504) on a chunk, while
  fewer than three retries were made, makes the loop count one more retry, sleep
  \<open>2 ^ retry\<close> seconds and call \<open>next_chunk\<close> again; the first retry sleeps 2
  seconds. When the transport answers the first two calls with retriable errors and the
  third with a response that has a non-empty id, \<open>upload_video\<close> (authenticated, file
  present, request built) returns that id after three calls and two sleeps, of 2 and 4
  seconds.
\<close>

theorem upload_retries_with_backoff:
  "(t (calls s) = HttpError status \<and> status \<in> {500, 502, 503, 504} \<and> retry s < 3 \<longrightarrow>
      resumable_loop t s =
      resumable_loop t
        (s\<lparr>calls := calls s + 1, error := True, retry := retry s + 1,
           sleeps := sleeps s @ [2 ^ (retry s + 1)]\<rparr>)) \<and>
   (youtube env \<and> path_exists env video_path \<and> request_ok env \<and>
    transport env 0 = HttpError a \<and> a \<in> {500, 502, 503, 504} \<and>
    transport env 1 = HttpError b \<and> b \<in> {500, 502, 503, 504} \<and>
    transport env 2 = Response (Some video_id) \<and> video_id \<noteq> [] \<longrightarrow>
      (\<exists>out s'. upload_video env uploads_log video_path title description tags = Some out \<and>
             returned out = Some video_id \<and> loop_state out = Some s' \<and>
             calls s' = 3 \<and> sleeps s' = [2, 4] \<and> sum_list (sleeps s') = 6))"
proof (intro conjI impI)
  assume "t (calls s) = HttpError status \<and> status \<in> {500, 502, 503, 504} \<and> retry s < 3"
  then show "resumable_loop t s =
      resumable_loop t
        (s\<lparr>calls := calls s + 1, error := True, retry := retry s + 1,
           sleeps := sleeps s @ [2 ^ (retry s + 1)]\<rparr>)"
    using loop_retriable [of t s status] by blast
next
  assume a: "youtube env \<and> path_exists env video_path \<and> request_ok env \<and>
    transport env 0 = HttpError a \<and> a \<in> {500, 502, 503, 504} \<and>
    transport env 1 = HttpError b \<and> b \<in> {500, 502, 503, 504} \<and>
    transport env 2 = Response (Some video_id) \<and> video_id \<noteq> []"
  then have "resumable_upload (transport env) =
             Some (Some video_id, \<lparr>calls = 3, error = True, retry = 2, sleeps = [2, 4]\<rparr>)"
    using two_errors_then_response [of "transport env" a b "Some video_id"] by blast
  with a show "\<exists>out s'. upload_video env uploads_log video_path title description tags = Some out \<and>
             returned out = Some video_id \<and> loop_state out = Some s' \<and>
             calls s' = 3 \<and> sleeps s' = [2, 4] \<and> sum_list (sleeps s') = 6"
    by (simp add: upload_video_def)
qed

theorem upload_retries_with_backoff_witness:
  "(\<lambda>n. if n < 2 then HttpError 503 else Response (Some ''abc123''))
     (calls \<lparr>calls = 0, error = False, retry = 0, sleeps = []\<rparr>) = HttpError 503 \<and>
   resumable_loop (\<lambda>n. if n < 2 then HttpError 503 else Response (Some ''abc123''))
     \<lparr>calls = 0, error = False, retry = 0, sleeps = []\<rparr> =
   resumable_loop (\<lambda>n. if n < 2 then HttpError 503 else Response (Some ''abc123''))
     \<lparr>calls = 1, error = True, retry = 1, sleeps = [2]\<rparr> \<and>
   (\<exists>out s'. upload_video
            \<lparr>youtube = True, path_exists = (\<lambda>p. True), request_ok = True,
             transport = (\<lambda>n. if n < 2 then HttpError 503 else Response (Some ''abc123'')),
             log_write = WriteOk, upload_now = ''2024-05-01T10:00:05''\<rparr>
            Absent ''videos/short_20240501_100000.mp4'' ''Hilarious Short Alert!''
            ''Hope this made you laugh!'' [''funny'', ''comedy''] = Some out \<and>
          returned out = Some ''abc123'' \<and> loop_state out = Some s' \<and>
          calls s' = 3 \<and> sleeps s' = [2, 4] \<and> sum_list (sleeps s') = 6)"
proof -
  let ?t = "\<lambda>n::nat. if n < 2 then HttpError 503 else Response (Some ''abc123'')"
  let ?s = "\<lparr>calls = 0, error = False, retry = 0, sleeps = []\<rparr>"
  let ?env = "\<lparr>youtube = True, path_exists = (\<lambda>p. True), request_ok = True,
             transport = ?t, log_write = WriteOk, upload_now = ''2024-05-01T10:00:05''\<rparr>"
  note inst = upload_retries_with_backoff
    [of ?t ?s 503 ?env "''videos/short_20240501_100000.mp4''" 503 503 "''abc123''"
        Absent "''Hilarious Short Alert!''" "''Hope this made you laugh!''"
        "[''funny'', ''comedy'']"]
  have h1: "?t (calls ?s) = HttpError 503 \<and> (503::nat) \<in> {500, 502, 503, 504} \<and> retry ?s < 3"
    by simp
  have h2: "youtube ?env \<and> path_exists ?env ''videos/short_20240501_100000.mp4'' \<and>
    request_ok ?env \<and>
    transport ?env 0 = HttpError 503 \<and> (503::nat) \<in> {500, 502, 503, 504} \<and>
    transport ?env 1 = HttpError 503 \<and> (503::nat) \<in> {500, 502, 503, 504} \<and>
    transport ?env 2 = Response (Some ''abc123'') \<and> ''abc123'' \<noteq> []"
    by simp
  have c0: "?t (calls ?s) = HttpError 503" by simp
  from inst [THEN conjunct1, THEN mp, OF h1]
  have c1: "resumable_loop ?t ?s =
            resumable_loop ?t \<lparr>calls = 1, error = True, retry = 1, sleeps = [2]\<rparr>"
    by (simp add: eval_nat_numeral)
  from inst [THEN conjunct2, THEN mp, OF h2]
  have c2: "\<exists>out s'. upload_video ?env Absent ''videos/short_20240501_100000.mp4''
                    ''Hilarious Short Alert!'' ''Hope this made you laugh!''
                    [''funny'', ''comedy''] = Some out \<and>
          returned out = Some ''abc123'' \<and> loop_state out = Some s' \<and>
          calls s' = 3 \<and> sleeps s' = [2, 4] \<and> sum_list (sleeps s') = 6" .
  show ?thesis by (intro conjI c0 c1 c2)
qed

text \<open>
  C2 as stated fails on the length of the sleeps: with HTTP 503 twice and then a
  response with the id \<open>abc123\<close>, the upload returns the id after two sleeps of 2 and
  4 seconds, 6 seconds in all, not 1 and 2.
\<close>

theorem two_503_sleep_six_seconds:
  "map_option (\<lambda>(r, s). (r, sleeps s, sum_list (sleeps s)))
     (resumable_upload (\<lambda>n. if n < 2 then HttpError 503 else Response (Some ''abc123''))) =
   Some (Some ''abc123'', [2, 4], 6)"
  using two_errors_then_response
    [of "\<lambda>n. if n < 2 then HttpError 503 else Response (Some ''abc123'')" 503 503 "Some ''abc123''"]
  by simp


text \<open>
  C3. When the transport answers the first four calls of \<open>next_chunk\<close> with a
  retriable status (HTTP 503 on every attempt, for one), \<open>upload_video\<close> returns: no
  exception leaves it, the value returned is \<open>None\<close>, and the upload log is as it was.
  When the upload was started (authenticated, file present, request built), it made the
  first attempt and exactly three retries, four calls in all, with sleeps of 2, 4 and 8
  seconds before the retries; the fourth error makes the retry counter 4, which exceeds
  the maximum.
\<close>

theorem upload_gives_up_after_three_retries:
  assumes "\<forall>n<4. \<exists>status \<in> {500, 502, 503, 504}. transport env n = HttpError status"
  shows "\<exists>out. upload_video env uploads_log video_path title description tags = Some out \<and>
           returned out = None \<and> log_after out = uploads_log \<and>
           (youtube env \<and> path_exists env video_path \<and> request_ok env \<longrightarrow>
              loop_state out = Some \<lparr>calls = 4, error = True, retry = 4, sleeps = [2, 4, 8]\<rparr>)"
  using four_errors [OF assms]
  by (simp add: upload_video_def)

theorem upload_gives_up_after_three_retries_witness:
  "list_all
     (\<lambda>n. transport
            \<lparr>youtube = True, path_exists = (\<lambda>p. True), request_ok = True,
             transport = (\<lambda>n. HttpError 503), log_write = WriteOk,
             upload_now = ''2024-05-01T10:00:05''\<rparr> n = HttpError 503)
     [0, 1, 2, 3] \<and>
   (\<exists>out. upload_video
            \<lparr>youtube = True, path_exists = (\<lambda>p. True), request_ok = True,
             transport = (\<lambda>n. HttpError 503), log_write = WriteOk,
             upload_now = ''2024-05-01T10:00:05''\<rparr>
            Absent ''videos/short_20240501_100000.mp4'' ''Hilarious Short Alert!''
            ''Hope this made you laugh!'' [''funny'', ''comedy''] = Some out \<and>
          returned out = None \<and> log_after out = Absent \<and>
          loop_state out = Some \<lparr>calls = 4, error = True, retry = 4, sleeps = [2, 4, 8]\<rparr>)"
proof -
  let ?env = "\<lparr>youtube = True, path_exists = (\<lambda>p. True), request_ok = True,
             transport = (\<lambda>n. HttpError 503), log_write = WriteOk,
             upload_now = ''2024-05-01T10:00:05''\<rparr>"
  have h: "\<forall>n<4. \<exists>status \<in> {500, 502, 503, 504}. transport ?env n = HttpError status"
    by simp
  have c1: "list_all (\<lambda>n. transport ?env n = HttpError 503) [0, 1, 2, 3]"
    by simp
  from upload_gives_up_after_three_retries
    [OF h, of Absent "''videos/short_20240501_100000.mp4''" "''Hilarious Short Alert!''"
       "''Hope this made you laugh!''" "[''funny'', ''comedy'']"]
  have c2: "\<exists>out. upload_video ?env Absent ''videos/short_20240501_100000.mp4''
                   ''Hilarious Short Alert!'' ''Hope this made you laugh!''
                   [''funny'', ''comedy''] = Some out \<and>
          returned out = None \<and> log_after out = Absent \<and>
          loop_state out = Some \<lparr>calls = 4, error = True, retry = 4, sleeps = [2, 4, 8]\<rparr>"
    by simp
  show ?thesis by (intro conjI c1 c2)
qed

section \<open>The upload log\<close>

lemma upload_video_returned:
  assumes "upload_video env uploads_log video_path title description tags = Some out"
  shows "(returned out = None \<longrightarrow> log_after out = uploads_log) \<and>
         (\<forall>video_id. returned out = Some video_id \<longrightarrow>
            log_after out =
            save_upload_metadata env uploads_log video_id video_path title description tags)"
  using assms
  by (auto simp: upload_video_def split: if_splits option.splits)

text \<open>
  C9, as the code has it. An upload that fails leaves the log as it was. After a
  successful upload, when the log file is absent or holds a list and the file can be
  written, the log is the old list with exactly one record appended, the record of this
  upload; when the log cannot be read as a list, or cannot be opened for writing, the
  failure is only reported and the file stays as it was, with no record of the upload.
\<close>

theorem successful_upload_appends_record:
  assumes "upload_video env uploads_log video_path title description tags = Some out"
  shows "(returned out = None \<longrightarrow> log_after out = uploads_log) \<and>
         (\<forall>video_id. returned out = Some video_id \<longrightarrow>
            (uploads_log = Absent \<and> log_write env = WriteOk \<longrightarrow>
               log_after out =
               Records [\<lparr>ur_video_id = video_id, ur_video_path = video_path, ur_title = title,
                         ur_description = description, ur_tags = tags,
                         ur_upload_time = upload_now env,
                         ur_url = ''https://www.youtube.com/watch?v='' @ video_id\<rparr>]) \<and>
            (\<forall>uploads. uploads_log = Records uploads \<and> log_write env = WriteOk \<longrightarrow>
               log_after out =
               Records (uploads @
                        [\<lparr>ur_video_id = video_id, ur_video_path = video_path, ur_title = title,
                          ur_description = description, ur_tags = tags,
                          ur_upload_time = upload_now env,
                          ur_url = ''https://www.youtube.com/watch?v='' @ video_id\<rparr>])) \<and>
            (uploads_log = Unreadable \<or> log_write env = OpenFails \<longrightarrow>
               log_after out = uploads_log))"
proof (intro conjI allI impI)
  assume "returned out = None"
  with upload_video_returned [OF assms] show "log_after out = uploads_log" by blast
next
  fix video_id
  assume r: "returned out = Some video_id"
    and a: "uploads_log = Absent \<and> log_write env = WriteOk"
  from upload_video_returned [OF assms] r
  have "log_after out =
        save_upload_metadata env uploads_log video_id video_path title description tags"
    by blast
  with a show "log_after out =
               Records [\<lparr>ur_video_id = video_id, ur_video_path = video_path, ur_title = title,
                         ur_description = description, ur_tags = tags,
                         ur_upload_time = upload_now env,
                         ur_url = ''https://www.youtube.com/watch?v='' @ video_id\<rparr>]"
    by (simp add: save_upload_metadata_def)
next
  fix video_id uploads
  assume r: "returned out = Some video_id"
    and a: "uploads_log = Records uploads \<and> log_write env = WriteOk"
  from upload_video_returned [OF assms] r
  have "log_after out =
        save_upload_metadata env uploads_log video_id video_path title description tags"
    by blast
  with a show "log_after out =
               Records (uploads @
                        [\<lparr>ur_video_id = video_id, ur_video_path = video_path, ur_title = title,
                          ur_description = description, ur_tags = tags,
                          ur_upload_time = upload_now env,
                          ur_url = ''https://www.youtube.com/watch?v='' @ video_id\<rparr>])"
    by (simp add: save_upload_metadata_def)
next
  fix video_id
  assume r: "returned out = Some video_id"
    and a: "uploads_log = Unreadable \<or> log_write env = OpenFails"
  from upload_video_returned [OF assms] r
  have "log_after out =
        save_upload_metadata env uploads_log video_id video_path title description tags"
    by blast
  with a show "log_after out = uploads_log"
    by (auto simp: save_upload_metadata_def split: log_file.splits)
qed


lemma first_call_response:
  assumes "t 0 = Response r"
  shows "resumable_upload t = Some (r, \<lparr>calls = 1, error = False, retry = 0, sleeps = []\<rparr>)"
  using loop_response [of t "\<lparr>calls = 0, error = False, retry = 0, sleeps = []\<rparr>" r] assms
  by (simp add: resumable_upload_def)

theorem successful_upload_appends_record_witness:
  "upload_video
     \<lparr>youtube = True, path_exists = (\<lambda>p. True), request_ok = True,
      transport = (\<lambda>n. Response (Some ''abc123'')), log_write = WriteOk,
      upload_now = ''2024-05-02T10:00:05''\<rparr>
     (Records [\<lparr>ur_video_id = ''xyz789'', ur_video_path = ''videos/short_20240501_100000.mp4'',
                ur_title = ''This Is TOO FUNNY!'', ur_description = ''Hope this made you laugh!'',
                ur_tags = [''funny''], ur_upload_time = ''2024-05-01T10:00:05'',
                ur_url = ''https://www.youtube.com/watch?v=xyz789''\<rparr>])
     ''videos/short_20240502_100000.mp4'' ''Hilarious Short Alert!''
     ''Hope this made you laugh!'' [''funny'', ''comedy''] =
   Some \<lparr>returned = Some ''abc123'',
         log_after =
           Records [\<lparr>ur_video_id = ''xyz789'', ur_video_path = ''videos/short_20240501_100000.mp4'',
                     ur_title = ''This Is TOO FUNNY!'', ur_description = ''Hope this made you laugh!'',
                     ur_tags = [''funny''], ur_upload_time = ''2024-05-01T10:00:05'',
                     ur_url = ''https://www.youtube.com/watch?v=xyz789''\<rparr>,
                    \<lparr>ur_video_id = ''abc123'', ur_video_path = ''videos/short_20240502_100000.mp4'',
                     ur_title = ''Hilarious Short Alert!'',
                     ur_description = ''Hope this made you laugh!'',
                     ur_tags = [''funny'', ''comedy''], ur_upload_time = ''2024-05-02T10:00:05'',
                     ur_url = ''https://www.youtube.com/watch?v=abc123''\<rparr>],
         loop_state = Some \<lparr>calls = 1, error = False, retry = 0, sleeps = []\<rparr>\<rparr>"
proof -
  let ?env = "\<lparr>youtube = True, path_exists = (\<lambda>p. True), request_ok = True,
      transport = (\<lambda>n. Response (Some ''abc123'')), log_write = WriteOk,
      upload_now = ''2024-05-02T10:00:05''\<rparr>"
  let ?old = "\<lparr>ur_video_id = ''xyz789'', ur_video_path = ''videos/short_20240501_100000.mp4'',
                ur_title = ''This Is TOO FUNNY!'', ur_description = ''Hope this made you laugh!'',
                ur_tags = [''funny''], ur_upload_time = ''2024-05-01T10:00:05'',
                ur_url = ''https://www.youtube.com/watch?v=xyz789''\<rparr>"
  have "resumable_upload (transport ?env) =
        Some (Some ''abc123'', \<lparr>calls = 1, error = False, retry = 0, sleeps = []\<rparr>)"
    by (rule first_call_response) simp
  then obtain out where
    up: "upload_video ?env (Records [?old]) ''videos/short_20240502_100000.mp4''
           ''Hilarious Short Alert!'' ''Hope this made you laugh!'' [''funny'', ''comedy''] =
         Some out"
    and ret: "returned out = Some ''abc123''"
    and loop: "loop_state out = Some \<lparr>calls = 1, error = False, retry = 0, sleeps = []\<rparr>"
    by (simp add: upload_video_def)
  have h: "Records [?old] = Records [?old] \<and> log_write ?env = WriteOk"
    by simp
  from successful_upload_appends_record
    [OF up, THEN conjunct2, THEN spec, THEN mp, OF ret, THEN conjunct2, THEN conjunct1,
     THEN spec, THEN mp, OF h]
  have "log_after out =
        Records ([?old] @
          [\<lparr>ur_video_id = ''abc123'', ur_video_path = ''videos/short_20240502_100000.mp4'',
            ur_title = ''Hilarious Short Alert!'', ur_description = ''Hope this made you laugh!'',
            ur_tags = [''funny'', ''comedy''], ur_upload_time = upload_now ?env,
            ur_url = ''https://www.youtube.com/watch?v='' @ ''abc123''\<rparr>])" .
  with ret loop have "out = \<lparr>returned = Some ''abc123'',
         log_after =
           Records [?old,
                    \<lparr>ur_video_id = ''abc123'', ur_video_path = ''videos/short_20240502_100000.mp4'',
                     ur_title = ''Hilarious Short Alert!'',
                     ur_description = ''Hope this made you laugh!'',
                     ur_tags = [''funny'', ''comedy''], ur_upload_time = ''2024-05-02T10:00:05'',
                     ur_url = ''https://www.youtube.com/watch?v=abc123''\<rparr>],
         loop_state = Some \<lparr>calls = 1, error = False, retry = 0, sleeps = []\<rparr>\<rparr>"
    by (cases out) simp
  with up show ?thesis by simp
qed

text \<open>
  C9 as stated fails: the upload succeeds and returns the id \<open>abc123\<close>, but the log
  file, which holds one record, cannot be opened for writing; the exception is caught
  and reported, and the log holds the same one record afterwards.
\<close>

theorem upload_succeeds_log_not_appended:
  "upload_video
     \<lparr>youtube = True, path_exists = (\<lambda>p. True), request_ok = True,
      transport = (\<lambda>n. Response (Some ''abc123'')), log_write = OpenFails,
      upload_now = ''2024-05-02T10:00:05''\<rparr>
     (Records [\<lparr>ur_video_id = ''xyz789'', ur_video_path = ''videos/short_20240501_100000.mp4'',
                ur_title = ''This Is TOO FUNNY!'', ur_description = ''Hope this made you laugh!'',
                ur_tags = [''funny''], ur_upload_time = ''2024-05-01T10:00:05'',
                ur_url = ''https://www.youtube.com/watch?v=xyz789''\<rparr>])
     ''videos/short_20240502_100000.mp4'' ''Hilarious Short Alert!''
     ''Hope this made you laugh!'' [''funny'', ''comedy''] =
   Some \<lparr>returned = Some ''abc123'',
         log_after =
           Records [\<lparr>ur_video_id = ''xyz789'', ur_video_path = ''videos/short_20240501_100000.mp4'',
                     ur_title = ''This Is TOO FUNNY!'', ur_description = ''Hope this made you laugh!'',
                     ur_tags = [''funny''], ur_upload_time = ''2024-05-01T10:00:05'',
                     ur_url = ''https://www.youtube.com/watch?v=xyz789''\<rparr>],
         loop_state = Some \<lparr>calls = 1, error = False, retry = 0, sleeps = []\<rparr>\<rparr>"
proof -
  have "resumable_upload (\<lambda>n. Response (Some ''abc123'')) =
        Some (Some ''abc123'', \<lparr>calls = 1, error = False, retry = 0, sleeps = []\<rparr>)"
    by (rule first_call_response) simp
  then show ?thesis
    by (simp add: upload_video_def save_upload_metadata_def)
qed


section \<open>The duration of the rendered asset\<close>

lemma create_video_from_script_body_duration:
  assumes "create_video_from_script_body env script_data = Inr clip"
  shows "vc_duration clip = min (case sd_duration script_data of None \<Rightarrow> 10 | Some d \<Rightarrow> d) 60"
  using assms
  unfolding create_video_from_script_body_def Let_def
  by (auto split: sum.splits if_splits prod.splits)

lemma create_text_file_duration:
  assumes "create_text_file env script_data = Some (path, TextFile content)"
  shows "tf_duration content = sd_duration script_data"
  using assms
  by (auto simp: create_text_file_def Let_def split: if_splits)

lemma create_text_image_duration:
  assumes "create_text_image env script_data = Some (path, TextFile content)"
  shows "tf_duration content = sd_duration script_data"
  using assms create_text_file_duration [of env script_data path content]
  by (auto simp: create_text_image_def split: if_splits sum.splits)

text \<open>
  C5, as the code has it. The full renderer clamps: the clip it encodes has the duration
  \<open>min(script_data.get("duration", 10), 60)\<close>, at most 60 seconds. The lite renderer
  has no clamp: its image has no duration, and the text file it falls back to records
  the requested duration as it is.
\<close>

theorem full_renderer_clamps_duration:
  "(create_video env script_data = Some (path, clip) \<longrightarrow>
      vc_duration clip = min (case sd_duration script_data of None \<Rightarrow> 10 | Some d \<Rightarrow> d) 60 \<and>
      vc_duration clip \<le> 60) \<and>
   (create_video_lite lenv script_data = Some (lpath, TextFile content) \<longrightarrow>
      tf_duration content = sd_duration script_data)"
proof (intro conjI impI)
  assume "create_video env script_data = Some (path, clip)"
  then have "create_video_from_script_body env script_data = Inr clip"
    by (auto simp: create_video_def create_video_from_script_def catch_none_def
             split: option.splits sum.splits if_splits)
  from create_video_from_script_body_duration [OF this]
  show d: "vc_duration clip = min (case sd_duration script_data of None \<Rightarrow> 10 | Some d \<Rightarrow> d) 60" .
  then show "vc_duration clip \<le> 60" by simp
next
  assume "create_video_lite lenv script_data = Some (lpath, TextFile content)"
  then have "create_text_image lenv script_data = Some (lpath, TextFile content)"
    by (auto simp: create_video_lite_def split: option.splits if_splits)
  then show "tf_duration content = sd_duration script_data"
    by (rule create_text_image_duration)
qed

theorem full_renderer_clamps_duration_witness:
  "create_video
     \<lparr>coin = False, color_pick = 0, animated_ok = True, color_clip_ok = True,
      styled_text_ok = True, plain_text_ok = True, emoji_ok = True, compose_ok = True,
      write_video_ok = True, render_now = ''20240501_100000''\<rparr>
     (empty_script\<lparr>sd_type := Some ''one_liner'',
                    sd_script := Some ''I invented a new word: Plagiarism!'',
                    sd_duration := Some 500\<rparr>) =
   Some (''videos/short_20240501_100000.mp4'',
         \<lparr>vc_duration = 60, vc_background = Solid (25, 25, 112) 60,
          vc_texts = [\<lparr>tc_text = ''I invented a new word: Plagiarism!'', tc_fontsize = 80,
                       tc_styled = True\<rparr>],
          vc_emoji = Some RollingOnTheFloorLaughing\<rparr>) \<and>
   vc_duration
     \<lparr>vc_duration = 60, vc_background = Solid (25, 25, 112) 60,
      vc_texts = [\<lparr>tc_text = ''I invented a new word: Plagiarism!'', tc_fontsize = 80,
                   tc_styled = True\<rparr>],
      vc_emoji = Some RollingOnTheFloorLaughing\<rparr> \<le> 60 \<and>
   create_video_lite
     \<lparr>pil_available = True, truetype_ok = True, default_font_ok = True, image_ok = False,
      text_write_ok = True, lite_now = ''20240501_100000''\<rparr>
     (empty_script\<lparr>sd_type := Some ''one_liner'',
                    sd_script := Some ''I invented a new word: Plagiarism!'',
                    sd_duration := Some 4\<rparr>) =
   Some (''videos/short_20240501_100000.txt'',
         TextFile \<lparr>tf_created = ''20240501_100000'', tf_type = ''one_liner'',
                   tf_content = ''I invented a new word: Plagiarism!'',
                   tf_duration = Some 4, tf_topic = ''humor'',
                   tf_visual_cues = [], tf_text_overlays = []\<rparr>) \<and>
   tf_duration \<lparr>tf_created = ''20240501_100000'', tf_type = ''one_liner'',
                tf_content = ''I invented a new word: Plagiarism!'',
                tf_duration = Some 4, tf_topic = ''humor'',
                tf_visual_cues = [], tf_text_overlays = []\<rparr> =
   sd_duration (empty_script\<lparr>sd_type := Some ''one_liner'',
                    sd_script := Some ''I invented a new word: Plagiarism!'',
                    sd_duration := Some 4\<rparr>)"
proof -
  let ?env = "\<lparr>coin = False, color_pick = 0, animated_ok = True, color_clip_ok = True,
      styled_text_ok = True, plain_text_ok = True, emoji_ok = True, compose_ok = True,
      write_video_ok = True, render_now = ''20240501_100000''\<rparr>"
  let ?script = "empty_script\<lparr>sd_type := Some ''one_liner'',
                    sd_script := Some ''I invented a new word: Plagiarism!'',
                    sd_duration := Some 500\<rparr>"
  let ?clip = "\<lparr>vc_duration = 60, vc_background = Solid (25, 25, 112) 60,
      vc_texts = [\<lparr>tc_text = ''I invented a new word: Plagiarism!'', tc_fontsize = 80,
                   tc_styled = True\<rparr>],
      vc_emoji = Some RollingOnTheFloorLaughing\<rparr>"
  have h: "create_video ?env ?script = Some (''videos/short_20240501_100000.mp4'', ?clip)"
    by (simp add: create_video_def create_video_from_script_def catch_none_def
          create_video_from_script_body_def create_background_video_def background_colors_def
          get_field_def create_text_clip_def text_clip_fontsize_def text_settings_fontsize_def
          create_emoji_clip_def empty_script_def Let_def)
  let ?lenv = "\<lparr>pil_available = True, truetype_ok = True, default_font_ok = True,
      image_ok = False, text_write_ok = True, lite_now = ''20240501_100000''\<rparr>"
  let ?short = "empty_script\<lparr>sd_type := Some ''one_liner'',
                    sd_script := Some ''I invented a new word: Plagiarism!'',
                    sd_duration := Some 4\<rparr>"
  let ?content = "\<lparr>tf_created = ''20240501_100000'', tf_type = ''one_liner'',
                tf_content = ''I invented a new word: Plagiarism!'',
                tf_duration = Some 4, tf_topic = ''humor'',
                tf_visual_cues = [], tf_text_overlays = []\<rparr>"
  have l: "create_video_lite ?lenv ?short =
           Some (''videos/short_20240501_100000.txt'', TextFile ?content)"
    by (simp add: create_video_lite_def create_text_image_def create_text_file_def
          empty_script_def Let_def)
  from full_renderer_clamps_duration [THEN conjunct1, THEN mp, OF h]
  have c1: "vc_duration ?clip \<le> 60" by (rule conjunct2)
  have c2: "tf_duration ?content = sd_duration ?short"
    by (rule full_renderer_clamps_duration [THEN conjunct2, THEN mp, OF l])
  show ?thesis by (intro conjI h c1 l c2)
qed

text \<open>
  C5 as stated fails for the lite renderer: where PIL is not available it writes the
  text file, and for a script of duration 500 the file says 500 seconds.
\<close>

theorem lite_renderer_keeps_duration_500:
  "create_video_lite
     \<lparr>pil_available = False, truetype_ok = False, default_font_ok = False, image_ok = False,
      text_write_ok = True, lite_now = ''20240501_100000''\<rparr>
     (empty_script\<lparr>sd_type := Some ''one_liner'',
                    sd_script := Some ''I invented a new word: Plagiarism!'',
                    sd_duration := Some 500\<rparr>) =
   Some (''videos/short_20240501_100000.txt'',
         TextFile \<lparr>tf_created = ''20240501_100000'', tf_type = ''one_liner'',
                   tf_content = ''I invented a new word: Plagiarism!'',
                   tf_duration = Some 500, tf_topic = ''humor'',
                   tf_visual_cues = [], tf_text_overlays = []\<rparr>)"
  by (simp add: create_video_lite_def create_text_image_def create_text_file_def
        empty_script_def Let_def)

section \<open>A run of the pipeline\<close>

text \<open>
  C4. When script generation returns nothing (\<open>None\<close>, or an empty dictionary), the run
  returns \<open>False\<close> and has called the first stage only. When the renderer returns
  nothing (\<open>None\<close>, or an empty path) for the script, the run returns \<open>False\<close> and has
  called the first two stages only. In both cases the upload stage is not called; a run
  that calls it had a script and a rendered file.
\<close>

theorem failed_stage_aborts_run:
  "(script_stage env = None \<or> script_stage env = Some empty_script \<longrightarrow>
      daily_automation env = (False, [GeneratingScript])) \<and>
   (\<forall>script_data. script_stage env = Some script_data \<and> script_data \<noteq> empty_script \<and>
      (render_stage env script_data = None \<or> render_stage env script_data = Some []) \<longrightarrow>
      daily_automation env = (False, [GeneratingScript, Rendering])) \<and>
   (Uploading \<in> set (snd (daily_automation env)) \<longrightarrow>
      (\<exists>script_data video_path. script_stage env = Some script_data \<and>
         script_data \<noteq> empty_script \<and>
         render_stage env script_data = Some video_path \<and> video_path \<noteq> []))"
proof (intro conjI allI impI)
  assume "script_stage env = None \<or> script_stage env = Some empty_script"
  then show "daily_automation env = (False, [GeneratingScript])"
    by (auto simp: daily_automation_def generate_content_def)
next
  fix script_data
  assume "script_stage env = Some script_data \<and> script_data \<noteq> empty_script \<and>
      (render_stage env script_data = None \<or> render_stage env script_data = Some [])"
  then show "daily_automation env = (False, [GeneratingScript, Rendering])"
    by (auto simp: daily_automation_def generate_content_def)
next
  assume "Uploading \<in> set (snd (daily_automation env))"
  then show "\<exists>script_data video_path. script_stage env = Some script_data \<and>
         script_data \<noteq> empty_script \<and>
         render_stage env script_data = Some video_path \<and> video_path \<noteq> []"
    by (auto simp: daily_automation_def generate_content_def
             split: option.splits if_splits)
qed


theorem failed_stage_aborts_run_witness:
  "daily_automation
     \<lparr>script_stage = None, render_stage = (\<lambda>s. Some ''videos/short_20240501_100000.mp4''),
      upload_stage = (\<lambda>c. Some ''abc123''), title_choice = ''Hilarious Short Alert!'',
      description_template = (\<lambda>s. s), metadata_write_ok = True,
      pipeline_now = ''2024-05-01T10:00:00''\<rparr> = (False, [GeneratingScript]) \<and>
   daily_automation
     \<lparr>script_stage = Some (empty_script\<lparr>sd_type := Some ''one_liner'',
                                         sd_script := Some ''I invented a new word: Plagiarism!'',
                                         sd_duration := Some 4\<rparr>),
      render_stage = (\<lambda>s. None),
      upload_stage = (\<lambda>c. Some ''abc123''), title_choice = ''Hilarious Short Alert!'',
      description_template = (\<lambda>s. s), metadata_write_ok = True,
      pipeline_now = ''2024-05-01T10:00:00''\<rparr> = (False, [GeneratingScript, Rendering]) \<and>
   Uploading \<notin> set [GeneratingScript, Rendering]"
proof -
  let ?e1 = "\<lparr>script_stage = None, render_stage = (\<lambda>s. Some ''videos/short_20240501_100000.mp4''),
      upload_stage = (\<lambda>c. Some ''abc123''), title_choice = ''Hilarious Short Alert!'',
      description_template = (\<lambda>s. s), metadata_write_ok = True,
      pipeline_now = ''2024-05-01T10:00:00''\<rparr>"
  let ?script = "empty_script\<lparr>sd_type := Some ''one_liner'',
                                sd_script := Some ''I invented a new word: Plagiarism!'',
                                sd_duration := Some 4\<rparr>"
  let ?e2 = "\<lparr>script_stage = Some ?script, render_stage = (\<lambda>s. None),
      upload_stage = (\<lambda>c. Some ''abc123''), title_choice = ''Hilarious Short Alert!'',
      description_template = (\<lambda>s. s), metadata_write_ok = True,
      pipeline_now = ''2024-05-01T10:00:00''\<rparr>"
  have h1: "script_stage ?e1 = None \<or> script_stage ?e1 = Some empty_script"
    by simp
  have "sd_type ?script \<noteq> sd_type empty_script"
    by (simp add: empty_script_def)
  then have "?script \<noteq> empty_script"
    by metis
  then have h2: "script_stage ?e2 = Some ?script \<and> ?script \<noteq> empty_script \<and>
      (render_stage ?e2 ?script = None \<or> render_stage ?e2 ?script = Some [])"
    by simp
  have c1: "daily_automation ?e1 = (False, [GeneratingScript])"
    by (rule failed_stage_aborts_run [THEN conjunct1, THEN mp, OF h1])
  have c2: "daily_automation ?e2 = (False, [GeneratingScript, Rendering])"
    by (rule failed_stage_aborts_run [THEN conjunct2, THEN conjunct1, THEN spec, THEN mp, OF h2])
  have c3: "Uploading \<notin> set [GeneratingScript, Rendering]"
    by simp
  show ?thesis by (intro conjI c1 c2 c3)
qed


end
